theory Spec2Isabelle
  imports Main "HOL-Library.Sublist"
begin

section \<open>Values exchanged with the backend\<close>

text \<open>
  A parsed JSON document. The client never computes with the numbers of a payload, it
  only tests them for truthiness and prints them: a number is kept as the text that
  \<^verbatim>\<open>String\<close> gives for it, so \<^verbatim>\<open>0\<close> is the one falsy number (\<^verbatim>\<open>-0\<close> prints as \<^verbatim>\<open>0\<close>,
  and JSON has neither \<^verbatim>\<open>NaN\<close> nor infinities).
\<close>

datatype json =
    JNull
  | JBool bool
  | JNum string
  | JStr string
  | JArr "json list"
  | JObj "(string \<times> json) list"

text \<open>
  What \<^verbatim>\<open>request\<close> reads from a response: the result of \<^verbatim>\<open>response.json()\<close> or of
  \<^verbatim>\<open>response.text()\<close> (a JavaScript string, hence \<open>JStr\<close>), or the \<^verbatim>\<open>Blob\<close> of
  \<^verbatim>\<open>response.blob()\<close>.
\<close>

datatype payload = Value json | Blob string

fun truthy :: "json \<Rightarrow> bool" where
  "truthy JNull = False"
| "truthy (JBool b) = b"
| "truthy (JNum n) = (n \<noteq> ''0'')"
| "truthy (JStr s) = (s \<noteq> [])"
| "truthy (JArr _) = True"
| "truthy (JObj _) = True"

text \<open>
  Decimal printing of an integer inside a template string: an HTTP status, a reading of
  \<^verbatim>\<open>Date.now()\<close>.
\<close>

definition digit :: "nat \<Rightarrow> char" where
  "digit n = ''0123456789'' ! n"

function dec :: "nat \<Rightarrow> string" where
  "dec n = (if n < 10 then [digit n] else dec (n div 10) @ [digit (n mod 10)])"
  by pat_completeness auto
termination
  by (relation "measure (\<lambda>n. n)") auto

declare dec.simps [simp del]

definition string_of_int :: "int \<Rightarrow> string" where
  "string_of_int i = (if i < 0 then CHR ''-'' # dec (nat (- i)) else dec (nat i))"

fun join :: "string \<Rightarrow> string list \<Rightarrow> string" where
  "join sep [] = []"
| "join sep [x] = x"
| "join sep (x # y # ys) = x @ sep @ join sep (y # ys)"

text \<open>\<^verbatim>\<open>String(v)\<close>, which \<^verbatim>\<open>new Error(v)\<close> applies to its argument.\<close>

fun js_string :: "json \<Rightarrow> string" where
  "js_string JNull = ''null''"
| "js_string (JBool b) = (if b then ''true'' else ''false'')"
| "js_string (JNum n) = n"
| "js_string (JStr s) = s"
| "js_string (JArr xs) =
     join '','' (map (\<lambda>x. if x = JNull then [] else js_string x) xs)"
| "js_string (JObj _) = ''[object Object]''"

text \<open>
  \<^verbatim>\<open>data?.message\<close> and \<^verbatim>\<open>data?.errors\<close>: only an object has such a property of its own;
  on \<^verbatim>\<open>null\<close>, a string, a number, a boolean, an array or a Blob the access yields
  \<^verbatim>\<open>undefined\<close> (\<open>None\<close>).
\<close>

fun property :: "payload \<Rightarrow> string \<Rightarrow> json option" where
  "property (Value (JObj kvs)) k = map_of kvs k"
| "property _ k = None"

section \<open>Errors, responses and the client's state\<close>

text \<open>
  A thrown \<^verbatim>\<open>Error\<close> with the properties the client attaches to it; \<open>None\<close> is a
  property that was never set.
\<close>

record js_error =
  err_message :: string
  err_status :: "int option"
  err_data :: "payload option"
  err_errors :: "json option"

definition new_Error :: "string \<Rightarrow> js_error" where
  "new_Error m = \<lparr>err_message = m, err_status = None, err_data = None, err_errors = None\<rparr>"

type_synonym headers = "(string \<times> string) list"

text \<open>
  A \<^verbatim>\<open>Response\<close>. Header names are stored in lower case, as \<^verbatim>\<open>Headers.get\<close> compares
  them. \<open>body_json\<close> is the outcome of \<^verbatim>\<open>response.json()\<close>, which rejects when the
  body is not JSON; \<open>body\<close> is the raw text.
\<close>

record response =
  status :: int
  headers :: headers
  body :: string
  body_json :: "js_error + json"

definition ok :: "response \<Rightarrow> bool" where
  "ok r = (200 \<le> status r \<and> status r \<le> 299)"

datatype body = Stringified json | Raw string

record config =
  cfg_method :: string
  cfg_headers :: headers
  cfg_body :: "body option"

record options =
  opt_headers :: "headers option"
  opt_body :: "body option"

record ledger_entry =
  endpoint :: string
  req_verb :: string
  timestamp :: int
  entry_status :: string
  entry_response :: "(int \<times> payload) option"
  entry_error :: "js_error option"

text \<open>
  The calls the client makes to the outside, in order: the two configured callbacks, the
  rate-limit warning (console and toast) and \<^verbatim>\<open>fetch\<close> itself. The callbacks belong to
  the embedding application; the client only knows whether one was configured.
\<close>

datatype event =
    TokenExpired
  | RateLimitExceeded payload
  | RateLimitWarning int "int option"
  | Fetched string string

record api_state =
  baseUrl :: string
  token :: "string option"
  onTokenExpired :: bool
  onRateLimitExceeded :: bool
  requests :: "string \<rightharpoonup> ledger_entry"
  defaultHeaders :: headers
  request_interceptors :: "(config \<Rightarrow> js_error + config) list"
  response_interceptors :: "(response \<Rightarrow> js_error + response) list"
  events :: "event list"

section \<open>Error mapping\<close>

text \<open>
  \<^verbatim>\<open>handleError\<close> has one exit, the \<^verbatim>\<open>throw\<close> of its last line: the model returns the
  error thrown and the state after the callbacks. The branches are the cases of its
  \<^verbatim>\<open>switch\<close>, in the order of the source.
\<close>

definition handleError :: "api_state \<Rightarrow> response \<Rightarrow> payload \<Rightarrow> js_error \<times> api_state" where
  "handleError s resp dat =
     (let error = \<lparr>err_message =
                     (case property dat ''message'' of
                        Some m \<Rightarrow> if truthy m then js_string m
                                  else ''HTTP '' @ string_of_int (status resp)
                      | None \<Rightarrow> ''HTTP '' @ string_of_int (status resp)),
                   err_status = Some (status resp),
                   err_data = Some dat,
                   err_errors = None\<rparr>
      in if status resp = 401
           then (error, if onTokenExpired s then s\<lparr>events := events s @ [TokenExpired]\<rparr> else s)
         else if status resp = 403
           then (error\<lparr>err_message := ''You do not have permission to perform this action''\<rparr>, s)
         else if status resp = 404
           then (error\<lparr>err_message := ''The requested resource was not found''\<rparr>, s)
         else if status resp = 422
           then (error\<lparr>err_message := ''Validation failed'',
                       err_errors := Some (case property dat ''errors'' of
                                             Some e \<Rightarrow> if truthy e then e else JObj []
                                           | None \<Rightarrow> JObj [])\<rparr>, s)
         else if status resp = 429
           then (error\<lparr>err_message := ''Rate limit exceeded. Please try again later.''\<rparr>,
                 if onRateLimitExceeded s
                   then s\<lparr>events := events s @ [RateLimitExceeded dat]\<rparr> else s)
         else if status resp = 500
           then (error\<lparr>err_message := ''Internal server error. Please try again later.''\<rparr>, s)
         else if status resp = 502 \<or> status resp = 503 \<or> status resp = 504
           then (error\<lparr>err_message :=
                         ''Service temporarily unavailable. Please try again later.''\<rparr>, s)
         else (error, s))"

section \<open>The request\<close>

text \<open>
  What one call of \<^verbatim>\<open>request\<close> reads from the browser, in the order of the reads:
  \<^verbatim>\<open>Date.now()\<close> and \<^verbatim>\<open>Math.random().toString(36).substr(2, 9)\<close> in
  \<^verbatim>\<open>generateRequestId\<close>, \<^verbatim>\<open>new URLSearchParams(data).toString()\<close>, \<^verbatim>\<open>Date.now()\<close>
  when the ledger entry is written, the outcome of \<^verbatim>\<open>fetch\<close> (\<open>Inl\<close> when the promise
  rejects), \<^verbatim>\<open>parseInt\<close> (\<open>None\<close> for \<^verbatim>\<open>NaN\<close>), \<^verbatim>\<open>navigator.onLine\<close> in the
  \<^verbatim>\<open>catch\<close> block and \<^verbatim>\<open>Date.now()\<close> in \<^verbatim>\<open>cleanupOldRequests\<close>.
\<close>

record req_env =
  now_id :: int
  random_id :: string
  url_params :: "json \<Rightarrow> string"
  now_tracked :: int
  fetch :: "string \<Rightarrow> config \<Rightarrow> js_error + response"
  parse_int :: "string \<Rightarrow> int option"
  online :: bool
  now_cleanup :: int

record api_result =
  success :: bool
  res_status :: int
  res_data :: payload
  res_headers :: headers

record api_config =
  config_baseUrl :: "string option"
  config_token :: "string option"
  config_onTokenExpired :: bool
  config_onRateLimitExceeded :: bool

text \<open>The constructor followed by \<^verbatim>\<open>initialize\<close>; an empty \<^verbatim>\<open>baseUrl\<close> is falsy.\<close>

definition new_NeurixAPI :: "api_config \<Rightarrow> api_state" where
  "new_NeurixAPI c =
     \<lparr>baseUrl = (case config_baseUrl c of
                   Some u \<Rightarrow> if u = [] then ''/api/v2'' else u
                 | None \<Rightarrow> ''/api/v2''),
      token = (case config_token c of Some t \<Rightarrow> if t = [] then None else Some t | None \<Rightarrow> None),
      onTokenExpired = config_onTokenExpired c,
      onRateLimitExceeded = config_onRateLimitExceeded c,
      requests = Map.empty,
      defaultHeaders = [(''Content-Type'', ''application/json''), (''Accept'', ''application/json'')],
      request_interceptors = [],
      response_interceptors = [],
      events = []\<rparr>"

definition generateRequestId :: "req_env \<Rightarrow> string" where
  "generateRequestId env = ''req_'' @ string_of_int (now_id env) @ ''_'' @ random_id env"

definition cleanupOldRequests :: "int \<Rightarrow> api_state \<Rightarrow> api_state" where
  "cleanupOldRequests now s =
     s\<lparr>requests := (\<lambda>id. case requests s id of
                            None \<Rightarrow> None
                          | Some e \<Rightarrow> if now - timestamp e > 3600000 then None else Some e)\<rparr>"

text \<open>An interceptor is an async function of the application; it may throw.\<close>

fun run_interceptors :: "('a \<Rightarrow> js_error + 'a) list \<Rightarrow> 'a \<Rightarrow> js_error + 'a" where
  "run_interceptors [] x = Inr x"
| "run_interceptors (f # fs) x =
     (case f x of Inl e \<Rightarrow> Inl e | Inr y \<Rightarrow> run_interceptors fs y)"

text \<open>\<^verbatim>\<open>s.includes(sub)\<close>.\<close>

fun includes_str :: "string \<Rightarrow> string \<Rightarrow> bool" where
  "includes_str [] sub = (sub = [])"
| "includes_str (c # cs) sub = (prefix sub (c # cs) \<or> includes_str cs sub)"

text \<open>The object spread \<^verbatim>\<open>{ ...a, ...b }\<close> of two header objects.\<close>

definition spread :: "headers \<Rightarrow> headers \<Rightarrow> headers" where
  "spread a b =
     map (\<lambda>(k, v). (k, case map_of b k of Some w \<Rightarrow> w | None \<Rightarrow> v)) a
     @ filter (\<lambda>(k, v). map_of a k = None) b"

text \<open>
  Lines 47 to 61: the \<^verbatim>\<open>config\<close> object and the endpoint. The spread of \<^verbatim>\<open>options\<close> comes
  after the \<^verbatim>\<open>headers\<close> key, so a \<^verbatim>\<open>headers\<close> property of \<^verbatim>\<open>options\<close> replaces the
  merged headers. \<open>url_params\<close> is the text \<^verbatim>\<open>new URLSearchParams(data).toString()\<close>
  gives for an object, a string or a list of pairs; the \<^verbatim>\<open>TypeError\<close> of the constructor
  on any other array is not part of the model.
\<close>

definition prepare ::
  "req_env \<Rightarrow> api_state \<Rightarrow> string \<Rightarrow> string \<Rightarrow> json option \<Rightarrow> options \<Rightarrow> string \<times> config" where
  "prepare env s meth endp dat opts =
     (let merged = spread (defaultHeaders s) (case opt_headers opts of Some h \<Rightarrow> h | None \<Rightarrow> []);
          config = \<lparr>cfg_method = meth,
                    cfg_headers = (case opt_headers opts of Some h \<Rightarrow> h | None \<Rightarrow> merged),
                    cfg_body = opt_body opts\<rparr>
      in case dat of
           None \<Rightarrow> (endp, config)
         | Some d \<Rightarrow>
             if \<not> truthy d then (endp, config)
             else if meth = ''GET'' then (endp @ ''?'' @ url_params env d, config)
             else (endp, config\<lparr>cfg_body := Some (Stringified d)\<rparr>))"

definition track :: "req_env \<Rightarrow> string \<Rightarrow> string \<Rightarrow> ledger_entry" where
  "track env endp meth =
     \<lparr>endpoint = endp, req_verb = meth, timestamp = now_tracked env,
      entry_status = ''pending'', entry_response = None, entry_error = None\<rparr>"

text \<open>Lines 88 to 97: the body is read according to the content type.\<close>

definition parse_body :: "response \<Rightarrow> js_error + payload" where
  "parse_body r =
     (case map_of (headers r) ''content-type'' of
        None \<Rightarrow> Inr (Blob (body r))
      | Some contentType \<Rightarrow>
          if contentType \<noteq> [] \<and> includes_str contentType ''application/json''
            then (case body_json r of Inl e \<Rightarrow> Inl e | Inr j \<Rightarrow> Inr (Value j))
          else if contentType \<noteq> [] \<and> includes_str contentType ''text/''
            then Inr (Value (JStr (body r)))
          else Inr (Blob (body r)))"

definition handleRateLimitWarning :: "api_state \<Rightarrow> int \<Rightarrow> int option \<Rightarrow> api_state" where
  "handleRateLimitWarning s remaining reset =
     s\<lparr>events := events s @ [RateLimitWarning remaining reset]\<rparr>"

text \<open>Lines 112 to 117.\<close>

definition rate_limit :: "req_env \<Rightarrow> api_state \<Rightarrow> response \<Rightarrow> api_state" where
  "rate_limit env s r =
     (case map_of (headers r) ''x-ratelimit-remaining'' of
        None \<Rightarrow> s
      | Some remaining \<Rightarrow>
          if remaining = [] then s
          else (case parse_int env remaining of
                  None \<Rightarrow> s
                | Some n \<Rightarrow>
                    if n < 10
                      then handleRateLimitWarning s n
                             (case map_of (headers r) ''x-ratelimit-reset'' of
                                None \<Rightarrow> None
                              | Some reset \<Rightarrow> parse_int env reset)
                    else s))"

text \<open>Assigning to a property of \<^verbatim>\<open>this.requests[requestId]\<close> when the entry is gone.\<close>

definition type_error :: js_error where
  "type_error = new_Error ''Cannot set properties of undefined''"

text \<open>
  The \<^verbatim>\<open>try\<close> block, lines 78 to 124. \<open>Inl\<close> is the error that reaches the \<^verbatim>\<open>catch\<close>
  block.
\<close>

definition attempt ::
  "req_env \<Rightarrow> api_state \<Rightarrow> string \<Rightarrow> string \<Rightarrow> config \<Rightarrow> (js_error + api_result) \<times> api_state" where
  "attempt env s requestId endp modifiedConfig =
     (let s0 = s\<lparr>events := events s @ [Fetched (baseUrl s @ endp) (cfg_method modifiedConfig)]\<rparr>
      in case fetch env (baseUrl s @ endp) modifiedConfig of
           Inl e \<Rightarrow> (Inl e, s0)
         | Inr resp \<Rightarrow>
             (case run_interceptors (response_interceptors s0) resp of
                Inl e \<Rightarrow> (Inl e, s0)
              | Inr modifiedResponse \<Rightarrow>
                  (case parse_body modifiedResponse of
                     Inl e \<Rightarrow> (Inl e, s0)
                   | Inr responseData \<Rightarrow>
                       (case requests s0 requestId of
                          None \<Rightarrow> (Inl type_error, s0)
                        | Some entry \<Rightarrow>
                            let s1 = s0\<lparr>requests := (requests s0)(requestId \<mapsto>
                                          entry\<lparr>entry_status := ''completed'',
                                                entry_response :=
                                                  Some (status modifiedResponse, responseData)\<rparr>)\<rparr>
                            in if \<not> ok modifiedResponse
                                 then (case handleError s1 modifiedResponse responseData of
                                         (error, s2) \<Rightarrow> (Inl error, s2))
                               else (Inr \<lparr>success = True,
                                          res_status = status modifiedResponse,
                                          res_data = responseData,
                                          res_headers = headers modifiedResponse\<rparr>,
                                     rate_limit env s1 modifiedResponse)))))"

text \<open>The \<^verbatim>\<open>catch\<close> block, lines 126 to 136: it always throws.\<close>

definition on_failure :: "req_env \<Rightarrow> api_state \<Rightarrow> string \<Rightarrow> js_error \<Rightarrow> js_error \<times> api_state" where
  "on_failure env s requestId error =
     (case requests s requestId of
        None \<Rightarrow> (type_error, s)
      | Some entry \<Rightarrow>
          (if \<not> online env
             then new_Error ''Network connection lost. Please check your internet connection.''
           else error,
           s\<lparr>requests := (requests s)(requestId \<mapsto>
                 entry\<lparr>entry_status := ''failed'', entry_error := Some error\<rparr>)\<rparr>))"

text \<open>
  \<^verbatim>\<open>request\<close>. A request interceptor that throws does so before the ledger entry is
  written and outside the \<^verbatim>\<open>try\<close>, so neither \<^verbatim>\<open>catch\<close> nor \<^verbatim>\<open>finally\<close> runs.
\<close>

definition request ::
  "req_env \<Rightarrow> api_state \<Rightarrow> string \<Rightarrow> string \<Rightarrow> json option \<Rightarrow> options
     \<Rightarrow> (js_error + api_result) \<times> api_state" where
  "request env s meth endp dat opts =
     (let requestId = generateRequestId env
      in case prepare env s meth endp dat opts of
           (endp1, config) \<Rightarrow>
             (case run_interceptors (request_interceptors s) config of
                Inl e \<Rightarrow> (Inl e, s)
              | Inr modifiedConfig \<Rightarrow>
                  let s1 = s\<lparr>requests := (requests s)(requestId \<mapsto> track env endp1 meth)\<rparr>
                  in case attempt env s1 requestId endp1 modifiedConfig of
                       (Inr result, s2) \<Rightarrow> (Inr result, cleanupOldRequests (now_cleanup env) s2)
                     | (Inl error, s2) \<Rightarrow>
                         (case on_failure env s2 requestId error of
                            (thrown, s3) \<Rightarrow>
                              (Inl thrown, cleanupOldRequests (now_cleanup env) s3))))"

definition no_options :: options where
  "no_options = \<lparr>opt_headers = None, opt_body = None\<rparr>"

text \<open>\<^verbatim>\<open>get(endpoint)\<close> with the defaults \<^verbatim>\<open>data = null\<close> and \<^verbatim>\<open>options = {}\<close>.\<close>

definition get :: "req_env \<Rightarrow> api_state \<Rightarrow> string \<Rightarrow> (js_error + api_result) \<times> api_state" where
  "get env s endp = request env s ''GET'' endp None no_options"

section \<open>Batches\<close>

record batch_request =
  br_method :: string
  br_endpoint :: string
  br_data :: "json option"
  br_options :: options

text \<open>\<^verbatim>\<open>{ success: true, data: result }\<close> or \<^verbatim>\<open>{ success: false, error }\<close>.\<close>

record batch_entry =
  be_success :: bool
  be_data :: "api_result option"
  be_error :: "js_error option"

text \<open>
  The \<^verbatim>\<open>for\<close> loop of \<^verbatim>\<open>batch\<close> with its accumulator \<^verbatim>\<open>results\<close>. \<open>envs 0\<close> is what
  the browser answers to the next request, \<open>envs 1\<close> to the one after it, and so on.
\<close>

fun batch_loop ::
  "(nat \<Rightarrow> req_env) \<Rightarrow> api_state \<Rightarrow> batch_request list \<Rightarrow> batch_entry list
     \<Rightarrow> batch_entry list \<times> api_state" where
  "batch_loop envs s [] results = (results, s)"
| "batch_loop envs s (r # rs) results =
     (case request (envs 0) s (br_method r) (br_endpoint r) (br_data r) (br_options r) of
        (Inr result, s1) \<Rightarrow>
          batch_loop (\<lambda>n. envs (Suc n)) s1 rs
            (results @ [\<lparr>be_success = True, be_data = Some result, be_error = None\<rparr>])
      | (Inl error, s1) \<Rightarrow>
          batch_loop (\<lambda>n. envs (Suc n)) s1 rs
            (results @ [\<lparr>be_success = False, be_data = None, be_error = Some error\<rparr>]))"

definition batch ::
  "(nat \<Rightarrow> req_env) \<Rightarrow> api_state \<Rightarrow> batch_request list \<Rightarrow> batch_entry list \<times> api_state" where
  "batch envs s reqs = batch_loop envs s reqs []"

section \<open>The local-storage cache\<close>

text \<open>
  \<^verbatim>\<open>localStorage\<close> holds strings. Under the keys \<^verbatim>\<open>api_cache_...\<close> they are the strings
  \<^verbatim>\<open>getWithCache\<close> writes, \<^verbatim>\<open>JSON.stringify({ data, timestamp })\<close>, and the model keeps
  each as the object \<^verbatim>\<open>JSON.parse\<close> makes of it. Serialising loses a Blob, which has no
  enumerable property: it is written as \<^verbatim>\<open>{}\<close>.
\<close>

record cache_entry =
  ce_data :: json
  ce_timestamp :: int

fun stored_form :: "payload \<Rightarrow> json" where
  "stored_form (Value j) = j"
| "stored_form (Blob b) = JObj []"

text \<open>
  The reads of \<^verbatim>\<open>getWithCache\<close>: \<^verbatim>\<open>Date.now()\<close> in the staleness check, the reads of the
  request it makes, \<^verbatim>\<open>Date.now()\<close> when the result is stored, the outcome of
  \<^verbatim>\<open>localStorage.setItem\<close> (\<open>Some\<close> the error it throws, when the quota is exceeded or
  storage is disabled), and \<^verbatim>\<open>navigator.onLine\<close> in its own \<^verbatim>\<open>catch\<close> block.
\<close>

record cache_env =
  now_check :: int
  request_env :: req_env
  now_store :: int
  store_error :: "js_error option"
  online_after :: bool

text \<open>
  The three shapes of the result: \<^verbatim>\<open>{ success, data, cached: true }\<close>,
  \<^verbatim>\<open>{ ...result, cached: false }\<close> and \<^verbatim>\<open>{ success, data, cached: true, offline: true }\<close>.
  A property that is absent is \<open>None\<close>, and \<open>False\<close> for \<^verbatim>\<open>offline\<close>.
\<close>

record cached_result =
  c_success :: bool
  c_data :: payload
  c_cached :: bool
  c_offline :: bool
  c_status :: "int option"
  c_headers :: "headers option"

definition cache_key :: "string \<Rightarrow> string" where
  "cache_key endp = ''api_cache_'' @ endp"

text \<open>
  The \<^verbatim>\<open>catch\<close> block of \<^verbatim>\<open>getWithCache\<close>, lines 400 to 407. It receives whatever the
  \<^verbatim>\<open>try\<close> block threw: the error of the request, or that of \<^verbatim>\<open>localStorage.setItem\<close>.
\<close>

definition cache_fallback ::
  "cache_env \<Rightarrow> cache_entry option \<Rightarrow> js_error \<Rightarrow> js_error + cached_result" where
  "cache_fallback env cached error =
     (case cached of
        Some e \<Rightarrow>
          if \<not> online_after env
            then Inr \<lparr>c_success = True, c_data = Value (ce_data e), c_cached = True,
                      c_offline = True, c_status = None, c_headers = None\<rparr>
          else Inl error
      | None \<Rightarrow> Inl error)"

text \<open>Lines 390 to 407: the \<^verbatim>\<open>try\<close> and \<^verbatim>\<open>catch\<close> of \<^verbatim>\<open>getWithCache\<close>.\<close>

definition refetch ::
  "cache_env \<Rightarrow> api_state \<Rightarrow> (string \<rightharpoonup> cache_entry) \<Rightarrow> string \<Rightarrow> cache_entry option
     \<Rightarrow> (js_error + cached_result) \<times> api_state \<times> (string \<rightharpoonup> cache_entry)" where
  "refetch env s localStorage endp cached =
     (case get (request_env env) s endp of
        (Inr result, s1) \<Rightarrow>
          (case store_error env of
             None \<Rightarrow>
               (Inr \<lparr>c_success = success result, c_data = res_data result, c_cached = False,
                     c_offline = False, c_status = Some (res_status result),
                     c_headers = Some (res_headers result)\<rparr>,
                s1,
                localStorage(cache_key endp \<mapsto>
                  \<lparr>ce_data = stored_form (res_data result), ce_timestamp = now_store env\<rparr>))
           | Some error \<Rightarrow> (cache_fallback env cached error, s1, localStorage))
      | (Inl error, s1) \<Rightarrow> (cache_fallback env cached error, s1, localStorage))"

definition getWithCache ::
  "cache_env \<Rightarrow> api_state \<Rightarrow> (string \<rightharpoonup> cache_entry) \<Rightarrow> string \<Rightarrow> int
     \<Rightarrow> (js_error + cached_result) \<times> api_state \<times> (string \<rightharpoonup> cache_entry)" where
  "getWithCache env s localStorage endp ttl =
     (case localStorage (cache_key endp) of
        Some e \<Rightarrow>
          if now_check env - ce_timestamp e < ttl
            then (Inr \<lparr>c_success = True, c_data = Value (ce_data e), c_cached = True,
                        c_offline = False, c_status = None, c_headers = None\<rparr>,
                  s, localStorage)
          else refetch env s localStorage endp (Some e)
      | None \<Rightarrow> refetch env s localStorage endp None)"

section \<open>Retrying\<close>

text \<open>
  \<^verbatim>\<open>error.status >= 400 && error.status < 500 && error.status !== 429\<close>; every comparison
  with an absent status is false.
\<close>

definition no_retry :: "js_error \<Rightarrow> bool" where
  "no_retry error =
     (case err_status error of
        None \<Rightarrow> False
      | Some st \<Rightarrow> 400 \<le> st \<and> st < 500 \<and> st \<noteq> 429)"

text \<open>
  The state of a run of \<^verbatim>\<open>retry\<close>: the world \<^verbatim>\<open>requestFn\<close> acts on, the outcomes of its
  invocations so far, and the arguments of the calls of \<^verbatim>\<open>this.delay\<close> so far.
\<close>

record ('s, 'a) retry_run =
  world :: 's
  attempts :: "(js_error + 'a) list"
  waits :: "int list"

text \<open>
  The \<^verbatim>\<open>for\<close> loop of \<^verbatim>\<open>retry\<close> from the value \<open>i\<close> of its counter on, followed by the
  final \<^verbatim>\<open>throw lastError\<close>; \<open>Inl None\<close> is \<^verbatim>\<open>throw undefined\<close>.
\<close>

function retry_from ::
  "('s \<Rightarrow> (js_error + 'a) \<times> 's) \<Rightarrow> int \<Rightarrow> int \<Rightarrow> int \<Rightarrow> js_error option
     \<Rightarrow> ('s, 'a) retry_run \<Rightarrow> (js_error option + 'a) \<times> ('s, 'a) retry_run" where
  "retry_from requestFn maxRetries delayMs i lastError run =
     (if i < maxRetries then
        (case requestFn (world run) of
           (Inr v, w) \<Rightarrow> (Inr v, run\<lparr>world := w, attempts := attempts run @ [Inr v]\<rparr>)
         | (Inl error, w) \<Rightarrow>
             if no_retry error
               then (Inl (Some error), run\<lparr>world := w, attempts := attempts run @ [Inl error]\<rparr>)
             else retry_from requestFn maxRetries delayMs (i + 1) (Some error)
                    (run\<lparr>world := w, attempts := attempts run @ [Inl error],
                         waits := waits run @ [delayMs * 2 ^ nat i]\<rparr>))
      else (Inl lastError, run))"
  by pat_completeness auto
termination
  by (relation "measure (\<lambda>(requestFn, maxRetries, delayMs, i, lastError, run). nat (maxRetries - i))")
     auto

declare retry_from.simps [simp del]

definition retry ::
  "('s \<Rightarrow> (js_error + 'a) \<times> 's) \<Rightarrow> int \<Rightarrow> int \<Rightarrow> 's
     \<Rightarrow> (js_error option + 'a) \<times> ('s, 'a) retry_run" where
  "retry requestFn maxRetries delayMs w =
     retry_from requestFn maxRetries delayMs 0 None \<lparr>world = w, attempts = [], waits = []\<rparr>"

section \<open>The service worker\<close>

text \<open>
  The request of a fetch event, with the protocol and path that \<^verbatim>\<open>new URL(request.url)\<close>
  reads from its URL.
\<close>

record sw_request =
  url :: string
  protocol :: string
  pathname :: string
  req_method :: string
  mode :: string

text \<open>
  The value of the header \<^verbatim>\<open>sw-cached-time\<close> as \<^verbatim>\<open>new Date(headers.get(...))\<close> reads it:
  absent (\<^verbatim>\<open>new Date(null)\<close> is the epoch), an ISO date written by the worker, given in
  milliseconds, or a value that is no date. Appending to a header that is already set
  joins the values, which is taken to be no date.
\<close>

datatype time_header = Absent | Stamp int | Unreadable

record sw_response =
  sw_status :: int
  sw_type :: string
  sw_headers :: headers
  sw_cached_time :: time_header
  sw_body :: body

definition sw_ok :: "sw_response \<Rightarrow> bool" where
  "sw_ok r = (200 \<le> sw_status r \<and> sw_status r \<le> 299)"

text \<open>
  \<^verbatim>\<open>CacheStorage\<close>: the named caches in the order of their creation, each a map from the
  URL of a GET request to the response stored for it. Opening a cache and looking a
  request up are taken to succeed; \<^verbatim>\<open>fetch\<close>, \<^verbatim>\<open>new Response\<close> and \<^verbatim>\<open>cache.put\<close> can
  fail, as written out below.
\<close>

type_synonym cache = "string \<rightharpoonup> sw_response"

type_synonym cache_storage = "(string \<times> cache) list"

definition CACHE_NAME :: string where
  "CACHE_NAME = ''changex-neurix-v2.0.0''"

definition API_CACHE_NAME :: string where
  "API_CACHE_NAME = ''changex-neurix-api-v1''"

text \<open>\<^verbatim>\<open>caches.open(name)\<close> creates the cache when there is none of that name.\<close>

definition caches_open :: "string \<Rightarrow> cache_storage \<Rightarrow> cache_storage" where
  "caches_open name cs = (if map_of cs name = None then cs @ [(name, Map.empty)] else cs)"

definition cache_of :: "cache_storage \<Rightarrow> string \<Rightarrow> cache" where
  "cache_of cs name = (case map_of cs name of Some c \<Rightarrow> c | None \<Rightarrow> Map.empty)"

definition cache_put :: "string \<Rightarrow> string \<Rightarrow> sw_response \<Rightarrow> cache_storage \<Rightarrow> cache_storage" where
  "cache_put name key r cs = map (\<lambda>(n, c). if n = name then (n, c(key \<mapsto> r)) else (n, c)) cs"

text \<open>\<^verbatim>\<open>caches.match(url)\<close>: the first cache, in creation order, that has the URL.\<close>

fun caches_match :: "cache_storage \<Rightarrow> string \<Rightarrow> sw_response option" where
  "caches_match [] key = None"
| "caches_match ((n, c) # cs) key =
     (case c key of Some r \<Rightarrow> Some r | None \<Rightarrow> caches_match cs key)"

text \<open>The values of a header that is a comma-separated list, without the blanks around them.\<close>

fun split_commas :: "string \<Rightarrow> string list" where
  "split_commas [] = [[]]"
| "split_commas (c # cs) =
     (if c = CHR '','' then [] # split_commas cs
      else (case split_commas cs of
              [] \<Rightarrow> [[c]]
            | v # vs \<Rightarrow> (c # v) # vs))"

definition blank :: "char \<Rightarrow> bool" where
  "blank c = (c = CHR '' '' \<or> c = CHR 0x09)"

definition trim :: "string \<Rightarrow> string" where
  "trim v = rev (dropWhile blank (rev (dropWhile blank v)))"

definition vary_star :: "sw_response \<Rightarrow> bool" where
  "vary_star r =
     (case map_of (sw_headers r) ''vary'' of
        None \<Rightarrow> False
      | Some v \<Rightarrow> ''*'' \<in> set (map trim (split_commas v)))"

text \<open>
  When \<^verbatim>\<open>cache.put\<close> stores: it rejects with a \<^verbatim>\<open>TypeError\<close> a request whose URL is
  neither http nor https, a response with status 206, and a response whose \<^verbatim>\<open>Vary\<close>
  header has the value \<^verbatim>\<open>*\<close>.
\<close>

definition put_accepts :: "string \<Rightarrow> sw_response \<Rightarrow> bool" where
  "put_accepts prot r =
     ((prot = ''http:'' \<or> prot = ''https:'') \<and> sw_status r \<noteq> 206 \<and> \<not> vary_star r)"

text \<open>
  \<^verbatim>\<open>caches.match(request)\<close> and \<^verbatim>\<open>cache.put(request, response)\<close> with a request object:
  only a GET request matches, and \<^verbatim>\<open>put\<close> rejects any other. \<^verbatim>\<open>handlePageNavigation\<close>
  and the handler of static assets do not await the \<^verbatim>\<open>put\<close>: when it rejects, nothing is
  stored and nothing is thrown.
\<close>

definition match_request :: "cache_storage \<Rightarrow> sw_request \<Rightarrow> sw_response option" where
  "match_request cs req =
     (if req_method req = ''GET'' then caches_match cs (url req) else None)"

definition put_request ::
  "string \<Rightarrow> sw_request \<Rightarrow> sw_response \<Rightarrow> cache_storage \<Rightarrow> cache_storage" where
  "put_request name req r cs =
     (if req_method req = ''GET'' \<and> put_accepts (protocol req) r
        then cache_put name (url req) r cs
      else cs)"

text \<open>
  The reads of the worker while it handles one fetch event: its own origin, against
  which \<^verbatim>\<open>'/offline.html'\<close> is resolved, \<^verbatim>\<open>new Date()\<close> in the freshness check, the
  outcome of \<^verbatim>\<open>fetch(request)\<close>, and \<^verbatim>\<open>new Date()\<close> when the response is stamped.
\<close>

record sw_env =
  origin :: string
  sw_now :: int
  sw_fetch :: "sw_request \<Rightarrow> js_error + sw_response"
  sw_now_store :: int

definition offline_page :: "sw_env \<Rightarrow> string" where
  "offline_page env = origin env @ ''/offline.html''"

text \<open>\<^verbatim>\<open>cacheAge < 5 * 60 * 1000\<close>; a comparison with \<^verbatim>\<open>NaN\<close> is false.\<close>

fun still_valid :: "int \<Rightarrow> time_header \<Rightarrow> bool" where
  "still_valid now Absent = (now - 0 < 5 * 60 * 1000)"
| "still_valid now (Stamp t) = (now - t < 5 * 60 * 1000)"
| "still_valid now Unreadable = False"

fun append_time :: "time_header \<Rightarrow> int \<Rightarrow> time_header" where
  "append_time Absent t = Stamp t"
| "append_time (Stamp _) t = Unreadable"
| "append_time Unreadable t = Unreadable"

text \<open>The response of lines 2105 to 2112.\<close>

definition no_cache_response :: sw_response where
  "no_cache_response =
     \<lparr>sw_status = 503, sw_type = ''default'',
      sw_headers = [(''content-type'', ''application/json'')],
      sw_cached_time = Absent,
      sw_body = Stringified (JObj [(''success'', JBool False),
                                   (''error'', JStr ''Network error''),
                                   (''message'',
                                    JStr ''You are offline and no cached data is available.'')])\<rparr>"

text \<open>The \<^verbatim>\<open>catch\<close> block of \<^verbatim>\<open>handleApiRequest\<close>.\<close>

definition api_fallback :: "cache_storage \<Rightarrow> string \<Rightarrow> sw_response \<times> cache_storage" where
  "api_fallback caches cacheKey =
     (let caches1 = caches_open API_CACHE_NAME caches
      in case cache_of caches1 API_CACHE_NAME cacheKey of
           Some cachedResponse \<Rightarrow> (cachedResponse, caches1)
         | None \<Rightarrow> (no_cache_response, caches1))"

text \<open>
  Lines 2072 to 2093, all inside the \<^verbatim>\<open>try\<close>, so that each failure ends in the
  \<^verbatim>\<open>catch\<close> block: \<^verbatim>\<open>fetch\<close> rejects; \<^verbatim>\<open>new Response\<close> throws a \<^verbatim>\<open>RangeError\<close> for a
  status outside 200 to 599 (the status 0 of an opaque response); the awaited
  \<^verbatim>\<open>cache.put\<close> rejects. The copy that is stored is the response \<^verbatim>\<open>new Response\<close> builds,
  of type \<^verbatim>\<open>default\<close>. A response with a null-body status has no body, as \<^verbatim>\<open>fetch\<close>
  delivers it.
\<close>

definition api_network ::
  "sw_env \<Rightarrow> cache_storage \<Rightarrow> sw_request \<Rightarrow> sw_response \<times> cache_storage" where
  "api_network env caches1 req =
     (case sw_fetch env req of
        Inl error \<Rightarrow> api_fallback caches1 (url req)
      | Inr networkResponse \<Rightarrow>
          if sw_status networkResponse < 200 \<or> 599 < sw_status networkResponse
            then api_fallback caches1 (url req)
          else
            let cachedResponseWithTime =
                  networkResponse\<lparr>sw_type := ''default'',
                    sw_cached_time :=
                      append_time (sw_cached_time networkResponse) (sw_now_store env)\<rparr>
            in if sw_ok networkResponse \<and> req_method req = ''GET''
                 then if put_accepts (protocol req) cachedResponseWithTime
                        then (networkResponse,
                              cache_put API_CACHE_NAME (url req) cachedResponseWithTime caches1)
                      else api_fallback caches1 (url req)
               else (networkResponse, caches1))"

definition handleApiRequest ::
  "sw_env \<Rightarrow> cache_storage \<Rightarrow> sw_request \<Rightarrow> sw_response \<times> cache_storage" where
  "handleApiRequest env caches req =
     (let cacheKey = url req;
          caches1 = caches_open API_CACHE_NAME caches
      in case cache_of caches1 API_CACHE_NAME cacheKey of
           Some cachedResponse \<Rightarrow>
             if still_valid (sw_now env) (sw_cached_time cachedResponse)
                \<and> req_method req = ''GET''
               then (cachedResponse, caches1)
             else api_network env caches1 req
         | None \<Rightarrow> api_network env caches1 req)"

text \<open>
  \<^verbatim>\<open>handlePageNavigation\<close>; \<open>None\<close> is the \<^verbatim>\<open>undefined\<close> that \<^verbatim>\<open>caches.match\<close> resolves to
  when nothing matches.
\<close>

definition handlePageNavigation ::
  "sw_env \<Rightarrow> cache_storage \<Rightarrow> sw_request \<Rightarrow> sw_response option \<times> cache_storage" where
  "handlePageNavigation env caches req =
     (case sw_fetch env req of
        Inr networkResponse \<Rightarrow>
          (Some networkResponse,
           put_request CACHE_NAME req networkResponse (caches_open CACHE_NAME caches))
      | Inl error \<Rightarrow>
          (case match_request caches req of
             Some cachedResponse \<Rightarrow> (Some cachedResponse, caches)
           | None \<Rightarrow> (caches_match caches (offline_page env), caches)))"

definition network_error_response :: sw_response where
  "network_error_response =
     \<lparr>sw_status = 408, sw_type = ''default'', sw_headers = [(''content-type'', ''text/plain'')],
      sw_cached_time = Absent, sw_body = Raw ''Network error happened''\<rparr>"

text \<open>Lines 2008 to 2048: static assets, cache first.\<close>

definition static_asset ::
  "sw_env \<Rightarrow> cache_storage \<Rightarrow> sw_request \<Rightarrow> sw_response option \<times> cache_storage" where
  "static_asset env caches req =
     (case match_request caches req of
        Some resp \<Rightarrow> (Some resp, caches)
      | None \<Rightarrow>
          (case sw_fetch env req of
             Inr resp \<Rightarrow>
               if sw_status resp \<noteq> 200 \<or> sw_type resp \<noteq> ''basic'' then (Some resp, caches)
               else (Some resp, put_request CACHE_NAME req resp (caches_open CACHE_NAME caches))
           | Inl error \<Rightarrow>
               if mode req = ''navigate''
                 then (caches_match caches (offline_page env), caches)
               else (Some network_error_response, caches)))"

text \<open>
  The listener of the \<^verbatim>\<open>fetch\<close> event. \<open>NotHandled\<close>: the listener returns without
  \<^verbatim>\<open>event.respondWith\<close>, and the browser performs the request itself.
\<close>

datatype fetch_outcome = NotHandled | RespondWith "sw_response option"

definition on_fetch ::
  "sw_env \<Rightarrow> cache_storage \<Rightarrow> sw_request \<Rightarrow> fetch_outcome \<times> cache_storage" where
  "on_fetch env caches req =
     (if req_method req \<noteq> ''GET'' then (NotHandled, caches)
      else if protocol req = ''chrome-extension:'' then (NotHandled, caches)
      else if prefix ''/api/'' (pathname req)
        then (case handleApiRequest env caches req of
                (resp, caches1) \<Rightarrow> (RespondWith (Some resp), caches1))
      else if mode req = ''navigate''
        then (case handlePageNavigation env caches req of
                (resp, caches1) \<Rightarrow> (RespondWith resp, caches1))
      else (case static_asset env caches req of
              (resp, caches1) \<Rightarrow> (RespondWith resp, caches1)))"

section \<open>Notions used in the statements\<close>

text \<open>One request of a batch, as \<^verbatim>\<open>batch\<close> issues it.\<close>

definition issue ::
  "req_env \<Rightarrow> api_state \<Rightarrow> batch_request \<Rightarrow> (js_error + api_result) \<times> api_state" where
  "issue env s r = request env s (br_method r) (br_endpoint r) (br_data r) (br_options r)"

text \<open>The result entry that stands for the outcome of a request.\<close>

fun as_entry :: "js_error + api_result \<Rightarrow> batch_entry" where
  "as_entry (Inr result) = \<lparr>be_success = True, be_data = Some result, be_error = None\<rparr>"
| "as_entry (Inl error) = \<lparr>be_success = False, be_data = None, be_error = Some error\<rparr>"

text \<open>The client's state once the first \<open>i\<close> requests of a list were issued, in order.\<close>

fun state_after ::
  "(nat \<Rightarrow> req_env) \<Rightarrow> api_state \<Rightarrow> batch_request list \<Rightarrow> nat \<Rightarrow> api_state" where
  "state_after envs s reqs 0 = s"
| "state_after envs s [] (Suc i) = s"
| "state_after envs s (r # rs) (Suc i) =
     state_after (\<lambda>n. envs (Suc n)) (snd (issue (envs 0) s r)) rs i"

text \<open>The outcomes of the first \<open>n\<close> invocations of a request function, one after another.\<close>

fun invocations :: "('s \<Rightarrow> (js_error + 'a) \<times> 's) \<Rightarrow> 's \<Rightarrow> nat \<Rightarrow> (js_error + 'a) list" where
  "invocations f w 0 = []"
| "invocations f w (Suc n) = fst (f w) # invocations f (snd (f w)) n"

text \<open>An attempt after which \<^verbatim>\<open>retry\<close> goes on: a failure that is not a 4xx other than 429.\<close>

fun retryable :: "js_error + 'a \<Rightarrow> bool" where
  "retryable (Inl e) = (\<not> no_retry e)"
| "retryable (Inr v) = False"

text \<open>
  What the loop of \<^verbatim>\<open>retry\<close> adds to a run when it starts at counter \<open>i\<close> with \<open>n\<close>
  rounds left: the attempts \<open>new\<close> and the waits \<open>nw\<close>, ending in the result \<open>res\<close>.
\<close>

definition retry_spec ::
  "('s \<Rightarrow> (js_error + 'a) \<times> 's) \<Rightarrow> 's \<Rightarrow> nat \<Rightarrow> nat \<Rightarrow> int \<Rightarrow> js_error option
     \<Rightarrow> (js_error option + 'a) \<Rightarrow> (js_error + 'a) list \<Rightarrow> int list \<Rightarrow> bool" where
  "retry_spec f w n i d le res new nw =
     (length new \<le> n
      \<and> new = take (length new) (invocations f w n)
      \<and> (\<forall>j. Suc j < length new \<longrightarrow> retryable (new ! j))
      \<and> (\<forall>v. res = Inr v \<longrightarrow> new \<noteq> [] \<and> last new = Inr v)
      \<and> (\<forall>x. res = Inl x \<longrightarrow>
            (new = [] \<and> x = le) \<or> (\<exists>e. new \<noteq> [] \<and> last new = Inl e \<and> x = Some e))
      \<and> (\<forall>x. res = Inl x \<longrightarrow>
            length new = n \<or> (new \<noteq> [] \<and> \<not> retryable (last new)))
      \<and> nw = map (\<lambda>j. d * 2 ^ (i + j)) [0..<length nw]
      \<and> length nw = length (filter retryable new))"

section \<open>Concrete inputs\<close>

text \<open>A client as the application builds it, with both callbacks configured.\<close>

definition an_api :: api_state where
  "an_api = new_NeurixAPI \<lparr>config_baseUrl = None, config_token = None,
                           config_onTokenExpired = True, config_onRateLimitExceeded = True\<rparr>"

text \<open>A response with a JSON body.\<close>

definition json_response :: "int \<Rightarrow> json \<Rightarrow> response" where
  "json_response st j =
     \<lparr>status = st, headers = [(''content-type'', ''application/json'')], body = [],
      body_json = Inr j\<rparr>"

text \<open>
  A browser whose \<^verbatim>\<open>fetch\<close> has the given outcome, with the given \<^verbatim>\<open>navigator.onLine\<close>
  and a clock that reads \<open>t\<close> throughout the request.
\<close>

definition browser :: "(js_error + response) \<Rightarrow> bool \<Rightarrow> int \<Rightarrow> req_env" where
  "browser outcome onl t =
     \<lparr>now_id = t, random_id = ''k3x9q0z1a'', url_params = (\<lambda>d. []), now_tracked = t,
      fetch = (\<lambda>u c. outcome), parse_int = (\<lambda>v. None), online = onl, now_cleanup = t\<rparr>"

definition failed_to_fetch :: js_error where
  "failed_to_fetch = new_Error ''Failed to fetch''"

definition default_config :: config where
  "default_config =
     \<lparr>cfg_method = ''GET'',
      cfg_headers = [(''Content-Type'', ''application/json''), (''Accept'', ''application/json'')],
      cfg_body = None\<rparr>"


text \<open>A batch of two requests; the network fails for the first and answers the second.\<close>

definition two_answers :: "nat \<Rightarrow> req_env" where
  "two_answers n =
     browser (if n = 0 then Inl failed_to_fetch else Inr (json_response 200 (JStr ''ok'')))
       True (1000 + int n)"

definition two_requests :: "batch_request list" where
  "two_requests =
     [\<lparr>br_method = ''GET'', br_endpoint = ''/a'', br_data = None, br_options = no_options\<rparr>,
      \<lparr>br_method = ''DELETE'', br_endpoint = ''/b'', br_data = None, br_options = no_options\<rparr>]"

text \<open>
  Request functions for \<^verbatim>\<open>retry\<close>; their world counts the invocations. \<open>flaky\<close> fails
  twice with a 503 and then succeeds, \<open>missing\<close> always fails with a 404.
\<close>

definition unavailable :: js_error where
  "unavailable = (new_Error ''HTTP 503'')\<lparr>err_status := Some 503\<rparr>"

definition not_found :: js_error where
  "not_found = (new_Error ''The requested resource was not found'')\<lparr>err_status := Some 404\<rparr>"

definition flaky :: "nat \<Rightarrow> (js_error + string) \<times> nat" where
  "flaky n = (if n < 2 then Inl unavailable else Inr ''done'', Suc n)"

definition missing :: "nat \<Rightarrow> (js_error + string) \<times> nat" where
  "missing n = (Inl not_found, Suc n)"

text \<open>
  A local storage whose entry for \<^verbatim>\<open>/models\<close> was written at time 0, and the browser as
  one call of \<^verbatim>\<open>getWithCache\<close> sees it.
\<close>

definition stale_storage :: "string \<rightharpoonup> cache_entry" where
  "stale_storage = [cache_key ''/models'' \<mapsto> \<lparr>ce_data = JStr ''old'', ce_timestamp = 0\<rparr>]"

definition cache_browser :: "(js_error + response) \<Rightarrow> bool \<Rightarrow> int \<Rightarrow> cache_env" where
  "cache_browser outcome onl t =
     \<lparr>now_check = t, request_env = browser outcome onl t, now_store = t, store_error = None,
      online_after = onl\<rparr>"

definition quota_exceeded :: js_error where
  "quota_exceeded = new_Error ''The quota has been exceeded.''"


text \<open>
  The service worker's surroundings, a fresh and a cached response, requests of the four
  kinds the listener tells apart, and cache storages with and without a stored copy.
\<close>

definition worker :: "(js_error + sw_response) \<Rightarrow> int \<Rightarrow> sw_env" where
  "worker outcome t =
     \<lparr>origin = ''https://neurix.example'', sw_now = t, sw_fetch = (\<lambda>r. outcome),
      sw_now_store = t\<rparr>"

definition a_page :: sw_response where
  "a_page = \<lparr>sw_status = 200, sw_type = ''basic'', sw_headers = [], sw_cached_time = Absent,
            sw_body = Raw ''new''\<rparr>"

definition an_old_copy :: sw_response where
  "an_old_copy = \<lparr>sw_status = 200, sw_type = ''basic'', sw_headers = [],
                 sw_cached_time = Stamp 1000, sw_body = Raw ''old''\<rparr>"

definition api_get :: sw_request where
  "api_get = \<lparr>url = ''https://neurix.example/api/v2/models'', protocol = ''https:'',
             pathname = ''/api/v2/models'', req_method = ''GET'', mode = ''cors''\<rparr>"

definition api_post :: sw_request where
  "api_post = api_get\<lparr>req_method := ''POST''\<rparr>"

definition page_visit :: sw_request where
  "page_visit = \<lparr>url = ''https://neurix.example/dashboard'', protocol = ''https:'',
                pathname = ''/dashboard'', req_method = ''GET'', mode = ''navigate''\<rparr>"

definition api_visit :: sw_request where
  "api_visit = \<lparr>url = ''https://neurix.example/api/docs'', protocol = ''https:'',
               pathname = ''/api/docs'', req_method = ''GET'', mode = ''navigate''\<rparr>"

definition warm_caches :: "string \<Rightarrow> cache_storage" where
  "warm_caches u = [(CACHE_NAME, Map.empty), (API_CACHE_NAME, [u \<mapsto> an_old_copy])]"

definition cold_caches :: cache_storage where
  "cold_caches = [(CACHE_NAME, Map.empty), (API_CACHE_NAME, Map.empty)]"

section \<open>Evaluation\<close>

text \<open>The equations that evaluate a request on a concrete input.\<close>

lemmas eval_request = request_def prepare_def attempt_def on_failure_def handleError_def browser_def
  an_api_def new_NeurixAPI_def json_response_def parse_body_def generateRequestId_def no_options_def
  spread_def track_def cleanupOldRequests_def ok_def Let_def new_Error_def default_config_def
  string_of_int_def dec.simps digit_def rate_limit_def failed_to_fetch_def

lemmas eval_worker = on_fetch_def handleApiRequest_def handlePageNavigation_def static_asset_def
  api_network_def api_fallback_def caches_open_def cache_of_def cache_put_def match_request_def
  put_request_def worker_def a_page_def an_old_copy_def api_get_def api_post_def page_visit_def
  api_visit_def warm_caches_def cold_caches_def CACHE_NAME_def API_CACHE_NAME_def sw_ok_def
  offline_page_def Let_def no_cache_response_def put_accepts_def vary_star_def

lemmas eval_cache = getWithCache_def refetch_def cache_fallback_def get_def cache_browser_def
  stale_storage_def cache_key_def

section \<open>Error mapping: properties\<close>




section \<open>A 401 response\<close>

lemma events_cleanupOldRequests [simp]: "events (cleanupOldRequests n s) = events s"
  by (simp add: cleanupOldRequests_def)





section \<open>The ledger of requests\<close>

lemma requests_handleError [simp]: "requests (snd (handleError s resp d)) = requests s"
  by (simp add: handleError_def Let_def)

lemma requests_rate_limit [simp]: "requests (rate_limit env s resp) = requests s"
  by (simp add: rate_limit_def handleRateLimitWarning_def split: option.split)

lemma requests_cleanup_Some:
  "requests (cleanupOldRequests n s) k = Some en \<Longrightarrow> requests s k = Some en"
  by (simp add: cleanupOldRequests_def split: option.splits if_splits)

lemma attempt_ledger:
  assumes "requests (snd (attempt env s k endp cfg)) i = Some en"
  shows "\<exists>en0. requests s i = Some en0 \<and> timestamp en = timestamp en0"
  using assms
  by (auto simp add: attempt_def Let_def split_beta split: sum.splits option.splits if_splits)

lemma on_failure_ledger:
  assumes "requests (snd (on_failure env s k err)) i = Some en"
  shows "\<exists>en0. requests s i = Some en0 \<and> timestamp en = timestamp en0"
  using assms
  by (auto simp add: on_failure_def split: option.splits if_splits)

lemma request_ledger:
  assumes "requests (snd (request env s meth endp dat opts)) i = Some en"
  shows "(i = generateRequestId env \<and> timestamp en = now_tracked env
            \<and> (\<exists>c. run_interceptors (request_interceptors s) (snd (prepare env s meth endp dat opts)) = Inr c))
         \<or> (i \<noteq> generateRequestId env \<and> (\<exists>en0. requests s i = Some en0 \<and> timestamp en = timestamp en0))
         \<or> ((\<exists>e. run_interceptors (request_interceptors s) (snd (prepare env s meth endp dat opts)) = Inl e) \<and> requests s i = Some en)"
proof -
  obtain endp1 cfg0 where p: "prepare env s meth endp dat opts = (endp1, cfg0)"
    by (cases "prepare env s meth endp dat opts")
  show ?thesis
  proof (cases "run_interceptors (request_interceptors s) cfg0")
    case (Inl e)
    with assms p show ?thesis by (simp add: request_def)
  next
    case (Inr c)
    define s1 where "s1 = s\<lparr>requests := (requests s)(generateRequestId env \<mapsto> track env endp1 meth)\<rparr>"
    obtain out s2 where a: "attempt env s1 (generateRequestId env) endp1 c = (out, s2)"
      by (cases "attempt env s1 (generateRequestId env) endp1 c")
    have "\<exists>s3. requests (cleanupOldRequests (now_cleanup env) s3) i = Some en
            \<and> (s3 = s2 \<or> (\<exists>err. s3 = snd (on_failure env s2 (generateRequestId env) err)))"
      using assms p Inr a
      by (cases out) (auto simp add: request_def Let_def s1_def [symmetric] split_beta)
    then obtain s3 where c: "requests s3 i = Some en"
      and d: "s3 = s2 \<or> (\<exists>err. s3 = snd (on_failure env s2 (generateRequestId env) err))"
      using requests_cleanup_Some by blast
    from c d have "\<exists>en2. requests s2 i = Some en2 \<and> timestamp en = timestamp en2"
      using on_failure_ledger by blast
    then obtain en2 where e: "requests s2 i = Some en2" "timestamp en = timestamp en2" by blast
    from a e(1) have "requests (snd (attempt env s1 (generateRequestId env) endp1 c)) i = Some en2"
      by simp
    from attempt_ledger [OF this] obtain en1 where
      f: "requests s1 i = Some en1" "timestamp en2 = timestamp en1" by blast
    show ?thesis
    proof (cases "i = generateRequestId env")
      case True
      with f e(2) p Inr show ?thesis by (auto simp add: s1_def track_def)
    next
      case False
      with f e(2) show ?thesis by (simp add: s1_def)
    qed
  qed
qed


lemma generateRequestId_prefix: "prefix ''req_'' (generateRequestId env)"
  by (simp add: generateRequestId_def)

lemma request_keys:
  assumes "\<forall>k \<in> dom (requests s). prefix ''req_'' k"
  shows "\<forall>k \<in> dom (requests (snd (request env s meth endp dat opts))). prefix ''req_'' k"
proof
  fix k assume "k \<in> dom (requests (snd (request env s meth endp dat opts)))"
  then obtain en where "requests (snd (request env s meth endp dat opts)) k = Some en" by blast
  from request_ledger [OF this] assms show "prefix ''req_'' k"
    using generateRequestId_prefix by blast
qed

text \<open>
  C8, as the code has it. Every key of the ledger is an identifier made by
  \<^verbatim>\<open>generateRequestId\<close>, a string that begins with \<^verbatim>\<open>req_\<close>, so none is empty. The entry
  a call records carries the reading of \<^verbatim>\<open>Date.now()\<close> at that moment; the entries of
  two successive calls are therefore ordered as the two readings are, and the code adds
  no order of its own.
\<close>

theorem ledger_entries_valid:
  assumes inv: "\<forall>k \<in> dom (requests s). prefix ''req_'' k"
    and s1: "s1 = snd (request e1 s m1 p1 d1 o1)"
    and s2: "s2 = snd (request e2 s1 m2 p2 d2 o2)"
    and i1: "run_interceptors (request_interceptors s) (snd (prepare e1 s m1 p1 d1 o1)) = Inr c1"
    and i2: "run_interceptors (request_interceptors s1) (snd (prepare e2 s1 m2 p2 d2 o2)) = Inr c2"
    and r1: "requests s1 (generateRequestId e1) = Some en1"
    and r2: "requests s2 (generateRequestId e2) = Some en2"
    and clock: "now_tracked e1 \<le> now_tracked e2"
  shows "(\<forall>k \<in> dom (requests s2). prefix ''req_'' k \<and> k \<noteq> [])
         \<and> timestamp en1 = now_tracked e1 \<and> timestamp en2 = now_tracked e2
         \<and> timestamp en1 \<le> timestamp en2"
proof -
  have k1: "\<forall>k \<in> dom (requests s1). prefix ''req_'' k"
    unfolding s1 by (rule request_keys [OF inv])
  have k2: "\<forall>k \<in> dom (requests s2). prefix ''req_'' k"
    unfolding s2 by (rule request_keys [OF k1])
  have t1: "timestamp en1 = now_tracked e1"
    using request_ledger [OF r1 [unfolded s1]] i1 by auto
  have t2: "timestamp en2 = now_tracked e2"
    using request_ledger [OF r2 [unfolded s2]] i2 by auto
  have "\<not> prefix ''req_'' []" by simp
  with k2 have "\<forall>k \<in> dom (requests s2). prefix ''req_'' k \<and> k \<noteq> []" by blast
  with t1 t2 clock show ?thesis by simp
qed

theorem ledger_entries_valid_witness:
  "map_option timestamp
     (requests (snd (request (browser (Inl failed_to_fetch) True 1000) an_api ''GET'' ''/a'' None
                       no_options))
        (generateRequestId (browser (Inl failed_to_fetch) True 1000))) = Some 1000
   \<and> map_option timestamp
     (requests (snd (request (browser (Inl failed_to_fetch) True 2000)
                       (snd (request (browser (Inl failed_to_fetch) True 1000) an_api ''GET'' ''/a''
                               None no_options))
                       ''POST'' ''/b'' None no_options))
        (generateRequestId (browser (Inl failed_to_fetch) True 2000))) = Some 2000
   \<and> generateRequestId (browser (Inl failed_to_fetch) True 2000) = ''req_2000_k3x9q0z1a''"
proof -
  let ?e1 = "browser (Inl failed_to_fetch) True 1000"
  let ?e2 = "browser (Inl failed_to_fetch) True 2000"
  let ?s1 = "snd (request ?e1 an_api ''GET'' ''/a'' None no_options)"
  let ?s2 = "snd (request ?e2 ?s1 ''POST'' ''/b'' None no_options)"
  let ?en1 = "\<lparr>endpoint = ''/a'', req_verb = ''GET'', timestamp = 1000, entry_status = ''failed'',
        entry_response = None, entry_error = Some failed_to_fetch\<rparr>"
  let ?en2 = "\<lparr>endpoint = ''/b'', req_verb = ''POST'', timestamp = 2000, entry_status = ''failed'',
        entry_response = None, entry_error = Some failed_to_fetch\<rparr>"
  have inv: "\<forall>k \<in> dom (requests an_api). prefix ''req_'' k"
    by (simp add: an_api_def new_NeurixAPI_def)
  have i1: "run_interceptors (request_interceptors an_api)
              (snd (prepare ?e1 an_api ''GET'' ''/a'' None no_options)) = Inr default_config"
    by (simp add: an_api_def new_NeurixAPI_def prepare_def no_options_def spread_def
        default_config_def Let_def)
  have i2: "run_interceptors (request_interceptors ?s1)
              (snd (prepare ?e2 ?s1 ''POST'' ''/b'' None no_options))
            = Inr (default_config\<lparr>cfg_method := ''POST''\<rparr>)"
    by (simp add: eval_request)
  have r1: "requests ?s1 (generateRequestId ?e1) = Some ?en1"
    by (simp add: eval_request)
  have r2: "requests ?s2 (generateRequestId ?e2) = Some ?en2"
    by (simp add: eval_request)
  have clock: "now_tracked ?e1 \<le> now_tracked ?e2"
    by (simp add: browser_def)
  have id: "generateRequestId ?e2 = ''req_2000_k3x9q0z1a''"
    by (simp add: generateRequestId_def browser_def string_of_int_def dec.simps digit_def)
  from ledger_entries_valid [OF inv refl refl i1 i2 r1 r2 clock] r1 r2 id
  show ?thesis by simp
qed

text \<open>
  C8 as stated fails when the clock is set back between two calls: the entry of the
  second call then carries the smaller timestamp.
\<close>

theorem ledger_timestamps_follow_clock:
  "map_option timestamp
     (requests (snd (request (browser (Inl failed_to_fetch) True 2000) an_api ''GET'' ''/a'' None
                       no_options))
        (generateRequestId (browser (Inl failed_to_fetch) True 2000))) = Some 2000
   \<and> map_option timestamp
     (requests (snd (request (browser (Inl failed_to_fetch) True 1000)
                       (snd (request (browser (Inl failed_to_fetch) True 2000) an_api ''GET'' ''/a''
                               None no_options))
                       ''GET'' ''/b'' None no_options))
        (generateRequestId (browser (Inl failed_to_fetch) True 1000))) = Some 1000"
  by (simp add: eval_request)

section \<open>Batches: properties\<close>

lemma batch_loop_step:
  "batch_loop envs s (r # rs) acc =
     batch_loop (\<lambda>n. envs (Suc n)) (snd (issue (envs 0) s r)) rs
       (acc @ [as_entry (fst (issue (envs 0) s r))])"
  by (cases "issue (envs 0) s r"; cases "fst (issue (envs 0) s r)")
     (auto simp add: issue_def)

lemma batch_loop_acc:
  "batch_loop envs s reqs acc =
     (acc @ fst (batch_loop envs s reqs []), snd (batch_loop envs s reqs []))"
proof (induction reqs arbitrary: envs s acc)
  case Nil
  show ?case by simp
next
  case (Cons r rs)
  show ?case
    unfolding batch_loop_step
    by (subst Cons.IH, subst (2 3) Cons.IH) simp
qed

lemma batch_Nil: "batch envs s [] = ([], s)"
  by (simp add: batch_def)

lemma batch_Cons:
  "batch envs s (r # rs) =
     (as_entry (fst (issue (envs 0) s r))
        # fst (batch (\<lambda>n. envs (Suc n)) (snd (issue (envs 0) s r)) rs),
      snd (batch (\<lambda>n. envs (Suc n)) (snd (issue (envs 0) s r)) rs))"
  unfolding batch_def batch_loop_step
  by (subst batch_loop_acc) simp

lemma batch_length: "length (fst (batch envs s reqs)) = length reqs"
  by (induction reqs arbitrary: envs s) (simp_all add: batch_Nil batch_Cons)

lemma batch_state: "snd (batch envs s reqs) = state_after envs s reqs (length reqs)"
  by (induction reqs arbitrary: envs s) (simp_all add: batch_Nil batch_Cons)

lemma batch_nth:
  "i < length reqs \<Longrightarrow>
   fst (batch envs s reqs) ! i =
     as_entry (fst (issue (envs i) (state_after envs s reqs i) (reqs ! i)))"
proof (induction reqs arbitrary: envs s i)
  case Nil
  then show ?case by simp
next
  case (Cons r rs)
  show ?case
  proof (cases i)
    case 0
    then show ?thesis by (simp add: batch_Cons)
  next
    case (Suc j)
    with Cons.prems have "j < length rs" by simp
    from Cons.IH [OF this] Suc show ?thesis by (simp add: batch_Cons)
  qed
qed

text \<open>
  C10. \<^verbatim>\<open>batch\<close> returns one entry per request, the \<open>i\<close>-th entry standing for the outcome
  of the \<open>i\<close>-th request: a success with the result, or a failure with the error. The
  \<open>i\<close>-th request is issued in the state the first \<open>i\<close> requests left, so they run one
  after another in input order. Every outcome of \<^verbatim>\<open>request\<close>, thrown or returned, becomes
  an entry: there is no input on which \<^verbatim>\<open>batch\<close> throws.
\<close>

theorem batch_results:
  "length (fst (batch envs s reqs)) = length reqs
   \<and> (\<forall>i < length reqs.
         fst (batch envs s reqs) ! i =
           as_entry (fst (issue (envs i) (state_after envs s reqs i) (reqs ! i))))
   \<and> snd (batch envs s reqs) = state_after envs s reqs (length reqs)"
  using batch_length batch_nth batch_state by blast

theorem batch_results_witness:
  "fst (batch two_answers an_api two_requests) =
     [\<lparr>be_success = False, be_data = None, be_error = Some failed_to_fetch\<rparr>,
      \<lparr>be_success = True,
       be_data = Some \<lparr>success = True, res_status = 200, res_data = Value (JStr ''ok''),
                       res_headers = [(''content-type'', ''application/json'')]\<rparr>,
       be_error = None\<rparr>]"
  using batch_results [of two_answers an_api two_requests]
  by (simp add: batch_def two_answers_def two_requests_def eval_request)

section \<open>Retrying: properties\<close>

lemma map_upt_shift:
  "map (\<lambda>j. g (n + j)) [0..<Suc k] = g n # map (\<lambda>j. g (Suc n + j)) [0..<k]"
proof -
  have "[0..<Suc k] = 0 # map Suc [0..<k]"
    by (simp add: upt_conv_Cons map_Suc_upt del: upt_Suc)
  then show ?thesis by (simp add: comp_def del: upt_Suc)
qed

lemma retry_spec_stop: "retry_spec f w 0 i d le (Inl le) [] []"
  by (simp add: retry_spec_def)

lemma retry_spec_success:
  "f w = (Inr v, w1) \<Longrightarrow> retry_spec f w (Suc n) i d le (Inr v) [Inr v] []"
  by (simp add: retry_spec_def)

lemma retry_spec_break:
  "f w = (Inl e, w1) \<Longrightarrow> no_retry e \<Longrightarrow> retry_spec f w (Suc n) i d le (Inl (Some e)) [Inl e] []"
  by (simp add: retry_spec_def)

lemma retry_spec_again:
  assumes "f w = (Inl e, w1)" and "\<not> no_retry e"
    and "retry_spec f w1 n (Suc i) d (Some e) res new nw"
  shows "retry_spec f w (Suc n) i d le res (Inl e # new) (d * 2 ^ i # nw)"
proof -
  have nth: "\<forall>j. Suc j < length (Inl e # new) \<longrightarrow> retryable ((Inl e # new) ! j)"
  proof (intro allI impI)
    fix j assume "Suc j < length (Inl e # new)"
    with assms show "retryable ((Inl e # new) ! j)"
      by (cases j) (simp_all add: retry_spec_def)
  qed
  have w: "d * 2 ^ i # nw = map (\<lambda>j. d * 2 ^ (i + j)) [0..<length (d * 2 ^ i # nw)]"
  proof -
    from assms(3) have "nw = map (\<lambda>j. d * 2 ^ (Suc i + j)) [0..<length nw]"
      unfolding retry_spec_def by blast
    then have "d * 2 ^ i # nw = d * 2 ^ (i + 0) # map (\<lambda>j. d * 2 ^ (Suc i + j)) [0..<length nw]"
      by simp
    also have "\<dots> = map (\<lambda>j. d * 2 ^ (i + j)) [0..<Suc (length nw)]"
      using map_upt_shift [of "\<lambda>k. d * 2 ^ k" i "length nw"] by simp
    finally show ?thesis by simp
  qed
  from assms have rest:
    "length (Inl e # new) \<le> Suc n"
    "Inl e # new = take (length (Inl e # new)) (invocations f w (Suc n))"
    "\<forall>v. res = Inr v \<longrightarrow> Inl e # new \<noteq> [] \<and> last (Inl e # new) = Inr v"
    "\<forall>x. res = Inl x \<longrightarrow> (Inl e # new = [] \<and> x = le)
        \<or> (\<exists>e'. Inl e # new \<noteq> [] \<and> last (Inl e # new) = Inl e' \<and> x = Some e')"
    "\<forall>x. res = Inl x \<longrightarrow> length (Inl e # new) = Suc n
        \<or> (Inl e # new \<noteq> [] \<and> \<not> retryable (last (Inl e # new)))"
    "length (d * 2 ^ i # nw) = length (filter retryable (Inl e # new))"
    by (auto simp add: retry_spec_def)
  with nth w show ?thesis
    unfolding retry_spec_def by blast
qed

lemma retry_from_spec:
  "0 \<le> i \<Longrightarrow>
   \<exists>new nw. attempts (snd (retry_from f M d i le run)) = attempts run @ new
     \<and> waits (snd (retry_from f M d i le run)) = waits run @ nw
     \<and> retry_spec f (world run) (nat (M - i)) (nat i) d le (fst (retry_from f M d i le run)) new nw"
proof (induction f M d i le run rule: retry_from.induct)
  case (1 f M d i le run)
  show ?case
  proof (cases "i < M")
    case False
    then show ?thesis
      by (simp add: retry_from.simps [of f M d i] retry_spec_stop)
  next
    case True
    then have n: "nat (M - i) = Suc (nat (M - (i + 1)))" by simp
    from "1.prems" have i: "nat (i + 1) = Suc (nat i)" by simp
    obtain out w where fw: "f (world run) = (out, w)" by (cases "f (world run)")
    show ?thesis
    proof (cases out)
      case (Inr v)
      with True fw show ?thesis
        by (simp add: retry_from.simps [of f M d i] n retry_spec_success)
    next
      case (Inl e)
      show ?thesis
      proof (cases "no_retry e")
        case True
        with \<open>i < M\<close> fw Inl show ?thesis
          by (simp add: retry_from.simps [of f M d i] n retry_spec_break)
      next
        case False
        let ?run = "run\<lparr>world := w, attempts := attempts run @ [Inl e],
                       waits := waits run @ [d * 2 ^ nat i]\<rparr>"
        have unf: "retry_from f M d i le run = retry_from f M d (i + 1) (Some e) ?run"
          using \<open>i < M\<close> fw Inl False by (simp add: retry_from.simps [of f M d i])
        from "1.prems" have "0 \<le> i + 1" by simp
        from "1.IH" [OF \<open>i < M\<close> fw [symmetric] Inl False this]
        obtain new nw where
          a: "attempts (snd (retry_from f M d (i + 1) (Some e) ?run)) = attempts ?run @ new"
          and b: "waits (snd (retry_from f M d (i + 1) (Some e) ?run)) = waits ?run @ nw"
          and c: "retry_spec f (world ?run) (nat (M - (i + 1))) (nat (i + 1)) d (Some e)
                    (fst (retry_from f M d (i + 1) (Some e) ?run)) new nw"
          by auto
        from c have "retry_spec f w (nat (M - (i + 1))) (Suc (nat i)) d (Some e)
                    (fst (retry_from f M d (i + 1) (Some e) ?run)) new nw"
          by (simp add: i)
        from retry_spec_again [OF _ False this, of "world run" le] fw Inl
        have "retry_spec f (world run) (nat (M - i)) (nat i) d le
                (fst (retry_from f M d i le run)) (Inl e # new) (d * 2 ^ nat i # nw)"
          by (simp add: n unf)
        with a b show ?thesis
          by (simp add: unf) 
      qed
    qed
  qed
qed

text \<open>
  C6. \<^verbatim>\<open>retry\<close> invokes \<^verbatim>\<open>requestFn\<close> at most \<^verbatim>\<open>maxRetries\<close> times, one invocation after
  another. Every attempt but the last is a failure that allows a retry, so the run ends
  with the first success, which is returned, or with the first 4xx failure other than
  429. It throws only after \<^verbatim>\<open>maxRetries\<close> attempts or such a 4xx failure, and what it
  throws is the last error (\<^verbatim>\<open>undefined\<close> when there was no attempt). The \<open>j\<close>-th wait,
  counted from 0, is \<^verbatim>\<open>delayMs\<close> times 2 to the power \<open>j\<close>, and there is one wait after
  each failure that allows a retry.
\<close>

theorem retry_behaviour:
  assumes "retry requestFn maxRetries delayMs w = (res, run)"
  shows "length (attempts run) \<le> nat maxRetries
    \<and> attempts run = take (length (attempts run)) (invocations requestFn w (nat maxRetries))
    \<and> (\<forall>j. Suc j < length (attempts run) \<longrightarrow> retryable (attempts run ! j))
    \<and> (\<forall>v. res = Inr v \<longrightarrow> attempts run \<noteq> [] \<and> last (attempts run) = Inr v)
    \<and> (\<forall>x. res = Inl x \<longrightarrow>
          (attempts run = [] \<and> x = None)
          \<or> (\<exists>e. attempts run \<noteq> [] \<and> last (attempts run) = Inl e \<and> x = Some e))
    \<and> (\<forall>x. res = Inl x \<longrightarrow>
          length (attempts run) = nat maxRetries
          \<or> (attempts run \<noteq> [] \<and> \<not> retryable (last (attempts run))))
    \<and> waits run = map (\<lambda>j. delayMs * 2 ^ j) [0..<length (waits run)]
    \<and> length (waits run) = length (filter retryable (attempts run))"
proof -
  from retry_from_spec [of 0 requestFn maxRetries delayMs None
      "\<lparr>world = w, attempts = [], waits = []\<rparr>"] assms
  obtain new nw where "attempts run = new" and "waits run = nw"
    and "retry_spec requestFn w (nat maxRetries) 0 delayMs None res new nw"
    by (auto simp add: retry_def)
  then have "retry_spec requestFn w (nat maxRetries) 0 delayMs None res (attempts run) (waits run)"
    by simp
  then show ?thesis
    unfolding retry_spec_def add_0_left by blast
qed

theorem retry_behaviour_witness:
  "retry flaky 3 1000 0 =
     (Inr ''done'',
      \<lparr>world = 3, attempts = [Inl unavailable, Inl unavailable, Inr ''done''],
       waits = [1000, 2000]\<rparr>)
   \<and> retry missing 3 1000 0 =
     (Inl (Some not_found), \<lparr>world = 1, attempts = [Inl not_found], waits = []\<rparr>)
   \<and> retryable (Inl unavailable :: js_error + string)
   \<and> \<not> retryable (Inl not_found :: js_error + string)"
proof -
  have a: "retry flaky 3 1000 0 =
     (Inr ''done'',
      \<lparr>world = 3, attempts = [Inl unavailable, Inl unavailable, Inr ''done''],
       waits = [1000, 2000]\<rparr>)"
    by (simp add: retry_def retry_from.simps flaky_def unavailable_def no_retry_def new_Error_def)
  have b: "retry missing 3 1000 0 =
     (Inl (Some not_found), \<lparr>world = 1, attempts = [Inl not_found], waits = []\<rparr>)"
    by (simp add: retry_def retry_from.simps missing_def not_found_def no_retry_def new_Error_def)
  from retry_behaviour [OF a] have "retryable (Inl unavailable :: js_error + string)"
    by (auto dest: spec [of _ 0])
  moreover from retry_behaviour [OF b] have "\<not> retryable (Inl not_found :: js_error + string)"
    by simp
  ultimately show ?thesis using a b by simp
qed

section \<open>The local-storage cache: properties\<close>

lemma events_handleError:
  "x \<in> set (events s) \<Longrightarrow> x \<in> set (events (snd (handleError s resp d)))"
  by (simp add: handleError_def Let_def)

lemma events_rate_limit:
  "x \<in> set (events s) \<Longrightarrow> x \<in> set (events (rate_limit env s resp))"
  by (simp add: rate_limit_def handleRateLimitWarning_def split: option.split)

lemma events_on_failure [simp]: "events (snd (on_failure env s k err)) = events s"
  by (simp add: on_failure_def split: option.split)

lemma events_attempt:
  "Fetched (baseUrl s @ endp) (cfg_method cfg) \<in> set (events (snd (attempt env s k endp cfg)))"
  by (auto simp add: attempt_def Let_def split_beta split: sum.split option.split
      intro!: events_handleError events_rate_limit)

lemma request_fetches:
  assumes "request env s meth endp dat opts = (Inr result, s1)"
  shows "\<exists>m. Fetched (baseUrl s @ fst (prepare env s meth endp dat opts)) m \<in> set (events s1)"
proof -
  obtain endp1 cfg0 where p: "prepare env s meth endp dat opts = (endp1, cfg0)"
    by (cases "prepare env s meth endp dat opts")
  from assms p obtain cfg where c: "run_interceptors (request_interceptors s) cfg0 = Inr cfg"
    by (cases "run_interceptors (request_interceptors s) cfg0") (auto simp add: request_def)
  define s0 where "s0 = s\<lparr>requests := (requests s)(generateRequestId env \<mapsto> track env endp1 meth)\<rparr>"
  obtain out s2 where a: "attempt env s0 (generateRequestId env) endp1 cfg = (out, s2)"
    by (cases "attempt env s0 (generateRequestId env) endp1 cfg")
  from assms p c a have "events s1 = events s2"
    by (cases out) (auto simp add: request_def Let_def s0_def [symmetric] split_beta)
  moreover from events_attempt [of s0 endp1 cfg env "generateRequestId env"] a
  have "Fetched (baseUrl s @ endp1) (cfg_method cfg) \<in> set (events s2)"
    by (simp add: s0_def)
  ultimately show ?thesis using p by auto
qed

lemma prepare_get: "fst (prepare env s ''GET'' endp None no_options) = endp"
  by (simp add: prepare_def Let_def)

lemma get_fetches:
  assumes "get env s endp = (Inr result, s1)"
  shows "\<exists>m. Fetched (baseUrl s @ endp) m \<in> set (events s1)"
  using request_fetches [of env s "''GET''" endp None no_options result s1] assms
  by (simp add: get_def prepare_get)

text \<open>
  C5, as the code has it. \<^verbatim>\<open>getWithCache\<close> is cache first with a staleness check. When
  local storage has an entry for the endpoint whose age, the current time minus its
  timestamp, is strictly less than \<^verbatim>\<open>ttl\<close>, the cached payload is returned with
  \<^verbatim>\<open>cached: true\<close> and the client is left as it was: nothing is fetched. Otherwise the
  client makes the GET request. When the request succeeds and \<^verbatim>\<open>localStorage.setItem\<close>
  accepts the write, the payload, as JSON serialises it, is stored under the cache key of
  the endpoint with the current time, the result is returned with \<^verbatim>\<open>cached: false\<close>, and
  the fetch of the endpoint is among the calls the client has made. When the request
  fails, or the write throws, local storage is left as it was and the \<^verbatim>\<open>catch\<close> block
  decides: the stale payload with \<^verbatim>\<open>cached: true\<close> and \<^verbatim>\<open>offline: true\<close> if there is an
  entry and \<^verbatim>\<open>navigator.onLine\<close> is false, the error thrown to the caller otherwise.
\<close>

theorem getWithCache_policy:
  "(\<forall>e. localStorage (cache_key endp) = Some e \<and> now_check env - ce_timestamp e < ttl \<longrightarrow>
      getWithCache env s localStorage endp ttl =
        (Inr \<lparr>c_success = True, c_data = Value (ce_data e), c_cached = True, c_offline = False,
              c_status = None, c_headers = None\<rparr>, s, localStorage))
   \<and> ((\<forall>e. localStorage (cache_key endp) = Some e \<longrightarrow> \<not> now_check env - ce_timestamp e < ttl) \<longrightarrow>
        fst (snd (getWithCache env s localStorage endp ttl)) = snd (get (request_env env) s endp)
        \<and> (\<forall>result s1. get (request_env env) s endp = (Inr result, s1)
               \<and> store_error env = None \<longrightarrow>
             getWithCache env s localStorage endp ttl =
               (Inr \<lparr>c_success = success result, c_data = res_data result, c_cached = False,
                     c_offline = False, c_status = Some (res_status result),
                     c_headers = Some (res_headers result)\<rparr>,
                s1,
                localStorage(cache_key endp \<mapsto>
                  \<lparr>ce_data = stored_form (res_data result), ce_timestamp = now_store env\<rparr>))
             \<and> (\<exists>m. Fetched (baseUrl s @ endp) m \<in> set (events s1)))
        \<and> (\<forall>error. fst (get (request_env env) s endp) = Inl error
               \<or> ((\<exists>result. fst (get (request_env env) s endp) = Inr result)
                    \<and> store_error env = Some error) \<longrightarrow>
             snd (snd (getWithCache env s localStorage endp ttl)) = localStorage
             \<and> fst (getWithCache env s localStorage endp ttl) =
                 (case localStorage (cache_key endp) of
                    Some e \<Rightarrow>
                      if \<not> online_after env
                        then Inr \<lparr>c_success = True, c_data = Value (ce_data e), c_cached = True,
                                  c_offline = True, c_status = None, c_headers = None\<rparr>
                      else Inl error
                  | None \<Rightarrow> Inl error)))"
proof -
  have fresh: "\<forall>e. localStorage (cache_key endp) = Some e \<and> now_check env - ce_timestamp e < ttl \<longrightarrow>
      getWithCache env s localStorage endp ttl =
        (Inr \<lparr>c_success = True, c_data = Value (ce_data e), c_cached = True, c_offline = False,
              c_status = None, c_headers = None\<rparr>, s, localStorage)"
    by (simp add: getWithCache_def)
  have stale: "getWithCache env s localStorage endp ttl =
      refetch env s localStorage endp (localStorage (cache_key endp))"
    if "\<forall>e. localStorage (cache_key endp) = Some e \<longrightarrow> \<not> now_check env - ce_timestamp e < ttl"
    using that by (simp add: getWithCache_def split: option.split)
  have state: "fst (snd (refetch env s localStorage endp c)) = snd (get (request_env env) s endp)"
    for c
    by (simp add: refetch_def split_beta split: sum.split option.split)
  have stored: "refetch env s localStorage endp c =
        (Inr \<lparr>c_success = success result, c_data = res_data result, c_cached = False,
              c_offline = False, c_status = Some (res_status result),
              c_headers = Some (res_headers result)\<rparr>,
         s1,
         localStorage(cache_key endp \<mapsto>
           \<lparr>ce_data = stored_form (res_data result), ce_timestamp = now_store env\<rparr>))"
    if "get (request_env env) s endp = (Inr result, s1)" "store_error env = None" for c result s1
    using that by (simp add: refetch_def)
  have failed: "snd (snd (refetch env s localStorage endp c)) = localStorage
      \<and> fst (refetch env s localStorage endp c) =
          (case c of
             Some e \<Rightarrow>
               if \<not> online_after env
                 then Inr \<lparr>c_success = True, c_data = Value (ce_data e), c_cached = True,
                           c_offline = True, c_status = None, c_headers = None\<rparr>
               else Inl error
           | None \<Rightarrow> Inl error)"
    if "fst (get (request_env env) s endp) = Inl error
        \<or> ((\<exists>result. fst (get (request_env env) s endp) = Inr result)
             \<and> store_error env = Some error)" for c error
    using that
    by (cases "get (request_env env) s endp"; cases "fst (get (request_env env) s endp)")
       (auto simp add: refetch_def cache_fallback_def split: option.split)
  show ?thesis
  proof (intro conjI impI)
    show "\<forall>e. localStorage (cache_key endp) = Some e \<and> now_check env - ce_timestamp e < ttl \<longrightarrow>
      getWithCache env s localStorage endp ttl =
        (Inr \<lparr>c_success = True, c_data = Value (ce_data e), c_cached = True, c_offline = False,
              c_status = None, c_headers = None\<rparr>, s, localStorage)"
      by (rule fresh)
  next
    assume a: "\<forall>e. localStorage (cache_key endp) = Some e \<longrightarrow> \<not> now_check env - ce_timestamp e < ttl"
    show "fst (snd (getWithCache env s localStorage endp ttl)) = snd (get (request_env env) s endp)"
      by (simp add: stale [OF a] state)
  next
    assume a: "\<forall>e. localStorage (cache_key endp) = Some e \<longrightarrow> \<not> now_check env - ce_timestamp e < ttl"
    show "\<forall>result s1. get (request_env env) s endp = (Inr result, s1)
               \<and> store_error env = None \<longrightarrow>
             getWithCache env s localStorage endp ttl =
               (Inr \<lparr>c_success = success result, c_data = res_data result, c_cached = False,
                     c_offline = False, c_status = Some (res_status result),
                     c_headers = Some (res_headers result)\<rparr>,
                s1,
                localStorage(cache_key endp \<mapsto>
                  \<lparr>ce_data = stored_form (res_data result), ce_timestamp = now_store env\<rparr>))
             \<and> (\<exists>m. Fetched (baseUrl s @ endp) m \<in> set (events s1))"
      unfolding stale [OF a] using stored get_fetches by blast
  next
    assume a: "\<forall>e. localStorage (cache_key endp) = Some e \<longrightarrow> \<not> now_check env - ce_timestamp e < ttl"
    show "\<forall>error. fst (get (request_env env) s endp) = Inl error
               \<or> ((\<exists>result. fst (get (request_env env) s endp) = Inr result)
                    \<and> store_error env = Some error) \<longrightarrow>
             snd (snd (getWithCache env s localStorage endp ttl)) = localStorage
             \<and> fst (getWithCache env s localStorage endp ttl) =
                 (case localStorage (cache_key endp) of
                    Some e \<Rightarrow>
                      if \<not> online_after env
                        then Inr \<lparr>c_success = True, c_data = Value (ce_data e), c_cached = True,
                                  c_offline = True, c_status = None, c_headers = None\<rparr>
                      else Inl error
                  | None \<Rightarrow> Inl error)"
      unfolding stale [OF a] using failed by blast
  qed
qed

theorem getWithCache_policy_witness:
  "getWithCache (cache_browser (Inl failed_to_fetch) True 200000) an_api stale_storage ''/models''
       300000
     = (Inr \<lparr>c_success = True, c_data = Value (JStr ''old''), c_cached = True, c_offline = False,
             c_status = None, c_headers = None\<rparr>, an_api, stale_storage)
   \<and> fst (getWithCache (cache_browser (Inr (json_response 200 (JStr ''new''))) True 900000) an_api
            stale_storage ''/models'' 300000)
     = Inr \<lparr>c_success = True, c_data = Value (JStr ''new''), c_cached = False, c_offline = False,
            c_status = Some 200, c_headers = Some [(''content-type'', ''application/json'')]\<rparr>
   \<and> snd (snd (getWithCache (cache_browser (Inr (json_response 200 (JStr ''new''))) True 900000)
                  an_api stale_storage ''/models'' 300000)) (cache_key ''/models'')
     = Some \<lparr>ce_data = JStr ''new'', ce_timestamp = 900000\<rparr>
   \<and> fst (getWithCache (cache_browser (Inl failed_to_fetch) False 700000) an_api stale_storage
            ''/models'' 300000)
     = Inr \<lparr>c_success = True, c_data = Value (JStr ''old''), c_cached = True, c_offline = True,
            c_status = None, c_headers = None\<rparr>"
  using getWithCache_policy [where localStorage = stale_storage and endp = "''/models''"
      and env = "cache_browser (Inl failed_to_fetch) True 200000" and s = an_api and ttl = 300000]
    getWithCache_policy [where localStorage = stale_storage and endp = "''/models''"
      and env = "cache_browser (Inr (json_response 200 (JStr ''new''))) True 900000"
      and s = an_api and ttl = 300000]
    getWithCache_policy [where localStorage = stale_storage and endp = "''/models''"
      and env = "cache_browser (Inl failed_to_fetch) False 700000" and s = an_api
      and ttl = 300000]
  by (simp add: eval_cache eval_request)

text \<open>
  C5 as stated fails in its second half. With a stale entry, a request that the server
  answers with a 500 stores nothing and returns no network result: the error is thrown
  and the old entry stays. The same holds when the request succeeds and
  \<^verbatim>\<open>localStorage.setItem\<close> throws; and with \<^verbatim>\<open>navigator.onLine\<close> false the failed
  request is answered from the stale entry with \<^verbatim>\<open>cached: true\<close>.
\<close>

theorem getWithCache_stale_failure_stores_nothing:
  "fst (getWithCache (cache_browser (Inr (json_response 500 JNull)) True 800000) an_api
          stale_storage ''/models'' 300000)
     = Inl \<lparr>err_message = ''Internal server error. Please try again later.'',
            err_status = Some 500, err_data = Some (Value JNull), err_errors = None\<rparr>
   \<and> snd (snd (getWithCache (cache_browser (Inr (json_response 500 JNull)) True 800000) an_api
                  stale_storage ''/models'' 300000)) (cache_key ''/models'')
     = Some \<lparr>ce_data = JStr ''old'', ce_timestamp = 0\<rparr>
   \<and> fst (getWithCache
            ((cache_browser (Inr (json_response 200 (JStr ''new''))) True 800000)
               \<lparr>store_error := Some quota_exceeded\<rparr>)
            an_api stale_storage ''/models'' 300000)
     = Inl quota_exceeded
   \<and> fst (getWithCache (cache_browser (Inl failed_to_fetch) False 800000) an_api stale_storage
            ''/models'' 300000)
     = Inr \<lparr>c_success = True, c_data = Value (JStr ''old''), c_cached = True, c_offline = True,
            c_status = None, c_headers = None\<rparr>"
  by (simp add: eval_cache eval_request)

section \<open>The worker's caches: properties\<close>

lemma map_of_caches_open:
  "map_of (caches_open n cs) m =
     (if m = n \<and> map_of cs n = None then Some Map.empty else map_of cs m)"
  by (auto simp add: caches_open_def map_add_def split: option.split)

lemma cache_of_caches_open [simp]: "cache_of (caches_open n cs) m = cache_of cs m"
  by (simp add: cache_of_def map_of_caches_open)

lemma caches_open_present: "map_of cs n = Some c \<Longrightarrow> caches_open n cs = cs"
  by (simp add: caches_open_def)

lemma cache_of_Some_present: "cache_of cs n k = Some r \<Longrightarrow> \<exists>c. map_of cs n = Some c"
  by (simp add: cache_of_def split: option.splits)

lemma map_of_cache_put:
  "map_of (cache_put n k r cs) m =
     (case map_of cs m of None \<Rightarrow> None | Some c \<Rightarrow> Some (if m = n then c(k \<mapsto> r) else c))"
  by (induction cs) (auto simp add: cache_put_def)

lemma cache_of_cache_put:
  "cache_of (cache_put n k r cs) m =
     (if m = n \<and> map_of cs n \<noteq> None then (cache_of cs n)(k \<mapsto> r) else cache_of cs m)"
  by (auto simp add: cache_of_def map_of_cache_put split: option.split)

lemma names_differ: "CACHE_NAME \<noteq> API_CACHE_NAME"
  by (simp add: CACHE_NAME_def API_CACHE_NAME_def)

text \<open>The fallback of the API handler.\<close>

lemma api_fallback_cached:
  "cache_of caches API_CACHE_NAME k = Some c \<Longrightarrow> api_fallback caches k = (c, caches)"
  using cache_of_Some_present [of caches API_CACHE_NAME k c]
  by (auto simp add: api_fallback_def Let_def caches_open_present)

lemma api_fallback_none:
  "cache_of caches API_CACHE_NAME k = None \<Longrightarrow>
   api_fallback caches k = (no_cache_response, caches_open API_CACHE_NAME caches)"
  by (simp add: api_fallback_def Let_def)

lemma handleApiRequest_fetch_fails_cached:
  assumes "sw_fetch env rq = Inl err" and "cache_of caches API_CACHE_NAME (url rq) = Some c"
  shows "handleApiRequest env caches rq = (c, caches)"
proof -
  from assms(2) obtain ch where "map_of caches API_CACHE_NAME = Some ch"
    using cache_of_Some_present by blast
  then have o: "caches_open API_CACHE_NAME caches = caches" by (rule caches_open_present)
  from assms show ?thesis
    by (simp add: handleApiRequest_def Let_def o api_network_def api_fallback_cached)
qed

lemma caches_open_idem [simp]: "caches_open n (caches_open n cs) = caches_open n cs"
  by (simp add: caches_open_def)

lemma handleApiRequest_fetch_fails_none:
  assumes "sw_fetch env rq = Inl err" and "cache_of caches API_CACHE_NAME (url rq) = None"
  shows "handleApiRequest env caches rq = (no_cache_response, caches_open API_CACHE_NAME caches)"
  using assms
  by (simp add: handleApiRequest_def Let_def api_network_def api_fallback_none)

lemma api_cache_api_fallback [simp]:
  "cache_of (snd (api_fallback caches k)) API_CACHE_NAME = cache_of caches API_CACHE_NAME"
  by (simp add: api_fallback_def Let_def split: option.split)

lemma api_network_writes:
  assumes "cache_of (snd (api_network env caches1 rq)) API_CACHE_NAME k
             \<noteq> cache_of caches1 API_CACHE_NAME k"
  shows "req_method rq = ''GET'' \<and> k = url rq
         \<and> (\<exists>nr. sw_fetch env rq = Inr nr \<and> sw_ok nr
               \<and> put_accepts (protocol rq)
                    (nr\<lparr>sw_type := ''default'',
                        sw_cached_time := append_time (sw_cached_time nr) (sw_now_store env)\<rparr>)
               \<and> cache_of (snd (api_network env caches1 rq)) API_CACHE_NAME k =
                   Some (nr\<lparr>sw_type := ''default'',
                           sw_cached_time :=
                             append_time (sw_cached_time nr) (sw_now_store env)\<rparr>))"
proof (cases "sw_fetch env rq")
  case (Inl err)
  with assms show ?thesis by (simp add: api_network_def)
next
  case (Inr nr)
  let ?copy = "nr\<lparr>sw_type := ''default'',
                  sw_cached_time := append_time (sw_cached_time nr) (sw_now_store env)\<rparr>"
  have stored: "snd (api_network env caches1 rq) =
                  cache_put API_CACHE_NAME (url rq) ?copy caches1"
    and cond: "sw_ok nr \<and> req_method rq = ''GET'' \<and> put_accepts (protocol rq) ?copy"
    using assms Inr
    by (simp_all add: api_network_def Let_def split: if_splits)
  from assms have "k = url rq"
    unfolding stored by (simp add: cache_of_cache_put split: if_splits)
  moreover from assms have "cache_of (snd (api_network env caches1 rq)) API_CACHE_NAME k
      = Some ?copy"
    unfolding stored by (simp add: cache_of_cache_put split: if_splits)
  ultimately show ?thesis using Inr cond by simp
qed

lemma handleApiRequest_writes:
  assumes "cache_of (snd (handleApiRequest env caches rq)) API_CACHE_NAME k
             \<noteq> cache_of caches API_CACHE_NAME k"
  shows "req_method rq = ''GET'' \<and> k = url rq
         \<and> (\<exists>nr. sw_fetch env rq = Inr nr \<and> sw_ok nr
               \<and> put_accepts (protocol rq)
                    (nr\<lparr>sw_type := ''default'',
                        sw_cached_time := append_time (sw_cached_time nr) (sw_now_store env)\<rparr>)
               \<and> cache_of (snd (handleApiRequest env caches rq)) API_CACHE_NAME k =
                   Some (nr\<lparr>sw_type := ''default'',
                           sw_cached_time :=
                             append_time (sw_cached_time nr) (sw_now_store env)\<rparr>))"
proof -
  have "handleApiRequest env caches rq = api_network env (caches_open API_CACHE_NAME caches) rq"
    using assms
    by (auto simp add: handleApiRequest_def Let_def split: option.splits if_splits)
  with assms api_network_writes [of env "caches_open API_CACHE_NAME caches" rq k]
  show ?thesis by auto
qed

lemma api_cache_put_request [simp]:
  "cache_of (put_request CACHE_NAME rq r cs) API_CACHE_NAME = cache_of cs API_CACHE_NAME"
  using names_differ by (simp add: put_request_def cache_of_cache_put)

lemma api_cache_handlePageNavigation [simp]:
  "cache_of (snd (handlePageNavigation env caches rq)) API_CACHE_NAME
     = cache_of caches API_CACHE_NAME"
  by (simp add: handlePageNavigation_def split: sum.split option.split)

lemma api_cache_static_asset [simp]:
  "cache_of (snd (static_asset env caches rq)) API_CACHE_NAME = cache_of caches API_CACHE_NAME"
  by (simp add: static_asset_def split: sum.split option.split)

section \<open>Failures and the caches\<close>

lemma request_fetch_fails:
  assumes "run_interceptors (request_interceptors s) (snd (prepare env s meth endp dat opts)) = Inr cfg"
    and "fetch env (baseUrl s @ fst (prepare env s meth endp dat opts)) cfg = Inl err"
  shows "fst (request env s meth endp dat opts) =
           Inl (if online env then err
                else new_Error ''Network connection lost. Please check your internet connection.'')"
proof -
  obtain endp1 cfg0 where p: "prepare env s meth endp dat opts = (endp1, cfg0)"
    by (cases "prepare env s meth endp dat opts")
  from assms p show ?thesis
    by (simp add: request_def attempt_def on_failure_def Let_def)
qed

lemma getWithCache_fails_uncached:
  assumes "localStorage (cache_key endp) = None" and "get (request_env env) s endp = (Inl err, s1)"
  shows "getWithCache env s localStorage endp ttl = (Inl err, s1, localStorage)"
  using assms by (simp add: getWithCache_def refetch_def cache_fallback_def)

lemma getWithCache_offline_cached:
  assumes "localStorage (cache_key endp) = Some e" and "get (request_env env) s endp = (Inl err, s1)"
    and "\<not> online_after env"
  shows "\<exists>r. fst (getWithCache env s localStorage endp ttl) = Inr r
           \<and> c_success r \<and> c_cached r \<and> c_data r = Value (ce_data e)"
  using assms by (simp add: getWithCache_def refetch_def cache_fallback_def)

lemma getWithCache_online_stale:
  assumes "localStorage (cache_key endp) = Some e" and "get (request_env env) s endp = (Inl err, s1)"
    and "online_after env" and "\<not> now_check env - ce_timestamp e < ttl"
  shows "getWithCache env s localStorage endp ttl = (Inl err, s1, localStorage)"
  using assms by (simp add: getWithCache_def refetch_def cache_fallback_def)

text \<open>
  C1, as the code has it. When the request of \<^verbatim>\<open>getWithCache\<close> fails and local storage
  has an entry for the endpoint, the cached payload is returned as a success if
  \<^verbatim>\<open>navigator.onLine\<close> is false; if it is true and the entry is stale, the error is
  thrown again. In the service worker, a GET request for an API path whose fetch fails
  while the API cache has a response for its URL is answered with that response.
\<close>

theorem cache_fallback_on_failure:
  "(\<forall>e err s1. localStorage (cache_key endp) = Some e
        \<and> get (request_env env) s endp = (Inl err, s1) \<longrightarrow>
      (\<not> online_after env \<longrightarrow>
         (\<exists>r. fst (getWithCache env s localStorage endp ttl) = Inr r
            \<and> c_success r \<and> c_cached r \<and> c_data r = Value (ce_data e)))
      \<and> (online_after env \<and> \<not> now_check env - ce_timestamp e < ttl \<longrightarrow>
           getWithCache env s localStorage endp ttl = (Inl err, s1, localStorage)))
   \<and> (\<forall>err c. req_method rq = ''GET'' \<and> protocol rq \<noteq> ''chrome-extension:''
        \<and> prefix ''/api/'' (pathname rq)
        \<and> sw_fetch swenv rq = Inl err \<and> cache_of caches API_CACHE_NAME (url rq) = Some c \<longrightarrow>
      on_fetch swenv caches rq = (RespondWith (Some c), caches))"
proof -
  have sw: "on_fetch swenv caches rq = (RespondWith (Some c), caches)"
    if "req_method rq = ''GET''" "protocol rq \<noteq> ''chrome-extension:''"
      "prefix ''/api/'' (pathname rq)" "sw_fetch swenv rq = Inl err"
      "cache_of caches API_CACHE_NAME (url rq) = Some c" for err c
    using that handleApiRequest_fetch_fails_cached [of swenv rq err caches c]
    by (simp add: on_fetch_def)
  from sw getWithCache_offline_cached getWithCache_online_stale show ?thesis
    by blast
qed

theorem cache_fallback_on_failure_witness:
  "fst (getWithCache (cache_browser (Inl failed_to_fetch) False 900000) an_api stale_storage
          ''/models'' 300000)
     = Inr \<lparr>c_success = True, c_data = Value (JStr ''old''), c_cached = True, c_offline = True,
            c_status = None, c_headers = None\<rparr>
   \<and> on_fetch (worker (Inl failed_to_fetch) 900000) (warm_caches (url api_get)) api_get
     = (RespondWith (Some an_old_copy), warm_caches (url api_get))"
  using cache_fallback_on_failure [where localStorage = stale_storage and endp = "''/models''"
      and env = "cache_browser (Inl failed_to_fetch) False 900000" and s = an_api
      and ttl = 300000 and rq = api_get and swenv = "worker (Inl failed_to_fetch) 900000"
      and caches = "warm_caches (url api_get)"]
  by (simp add: eval_cache eval_request eval_worker)

text \<open>
  C1 as stated fails for \<^verbatim>\<open>getWithCache\<close>: with a stale entry in local storage and
  \<^verbatim>\<open>navigator.onLine\<close> true, a failed fetch is thrown to the caller.
\<close>

theorem getWithCache_online_failure_throws:
  "stale_storage (cache_key ''/models'') = Some \<lparr>ce_data = JStr ''old'', ce_timestamp = 0\<rparr>
   \<and> fst (getWithCache (cache_browser (Inl failed_to_fetch) True 900000) an_api stale_storage
            ''/models'' 300000) = Inl failed_to_fetch"
  by (simp add: eval_cache eval_request)

text \<open>
  C3, as the code has it. When the request fails and local storage has no entry for the
  endpoint, \<^verbatim>\<open>getWithCache\<close> throws the very error its request threw. For a fetch that
  rejects, this is the error of the fetch when \<^verbatim>\<open>navigator.onLine\<close> is true; when it is
  false, \<^verbatim>\<open>request\<close> has replaced the error of the fetch by its own connection-lost
  error, and that is what the caller gets. In the service worker, when the fetch fails
  and the API cache has nothing for the URL, the API handler answers with its 503
  response, which is not ok.
\<close>

theorem failure_without_cache_propagates:
  "(\<forall>err s1. localStorage (cache_key endp) = None
        \<and> get (request_env env) s endp = (Inl err, s1) \<longrightarrow>
      getWithCache env s localStorage endp ttl = (Inl err, s1, localStorage))
   \<and> (\<forall>cfg err.
        run_interceptors (request_interceptors s)
          (snd (prepare (request_env env) s ''GET'' endp None no_options)) = Inr cfg
        \<and> fetch (request_env env) (baseUrl s @ endp) cfg = Inl err \<longrightarrow>
      fst (get (request_env env) s endp) =
        Inl (if online (request_env env) then err
             else new_Error ''Network connection lost. Please check your internet connection.'')
      \<and> (localStorage (cache_key endp) = None \<longrightarrow>
           fst (getWithCache env s localStorage endp ttl) =
             Inl (if online (request_env env) then err
                  else new_Error
                         ''Network connection lost. Please check your internet connection.'')))
   \<and> (\<forall>err. sw_fetch swenv rq = Inl err \<and> cache_of caches API_CACHE_NAME (url rq) = None \<longrightarrow>
        handleApiRequest swenv caches rq = (no_cache_response, caches_open API_CACHE_NAME caches)
        \<and> \<not> sw_ok no_cache_response \<and> sw_status no_cache_response = 503)"
proof -
  have g: "fst (get (request_env env) s endp) =
        Inl (if online (request_env env) then err
             else new_Error ''Network connection lost. Please check your internet connection.'')"
    if "run_interceptors (request_interceptors s)
          (snd (prepare (request_env env) s ''GET'' endp None no_options)) = Inr cfg"
      "fetch (request_env env) (baseUrl s @ endp) cfg = Inl err" for cfg err
    using request_fetch_fails [of s "request_env env" "''GET''" endp None no_options cfg err] that
    by (simp add: get_def prepare_get)
  have u: "fst (getWithCache env s localStorage endp ttl) = Inl e"
    if "localStorage (cache_key endp) = None" "fst (get (request_env env) s endp) = Inl e" for e
    using that getWithCache_fails_uncached [of localStorage endp env s e
        "snd (get (request_env env) s endp)" ttl]
    by (cases "get (request_env env) s endp") simp
  have r: "\<not> sw_ok no_cache_response \<and> sw_status no_cache_response = 503"
    by (simp add: sw_ok_def no_cache_response_def)
  show ?thesis
  proof (intro conjI allI impI)
    fix err s1
    assume "localStorage (cache_key endp) = None \<and> get (request_env env) s endp = (Inl err, s1)"
    then show "getWithCache env s localStorage endp ttl = (Inl err, s1, localStorage)"
      using getWithCache_fails_uncached by blast
  next
    fix cfg err
    assume h: "run_interceptors (request_interceptors s)
          (snd (prepare (request_env env) s ''GET'' endp None no_options)) = Inr cfg
        \<and> fetch (request_env env) (baseUrl s @ endp) cfg = Inl err"
    then show "fst (get (request_env env) s endp) =
        Inl (if online (request_env env) then err
             else new_Error ''Network connection lost. Please check your internet connection.'')"
      using g by blast
  next
    fix cfg err
    assume h: "run_interceptors (request_interceptors s)
          (snd (prepare (request_env env) s ''GET'' endp None no_options)) = Inr cfg
        \<and> fetch (request_env env) (baseUrl s @ endp) cfg = Inl err"
      and n: "localStorage (cache_key endp) = None"
    from h have e: "fst (get (request_env env) s endp) =
        Inl (if online (request_env env) then err
             else new_Error ''Network connection lost. Please check your internet connection.'')"
      using g by blast
    from u [OF n e] show "fst (getWithCache env s localStorage endp ttl) =
        Inl (if online (request_env env) then err
             else new_Error ''Network connection lost. Please check your internet connection.'')"
      .
  next
    fix err
    assume "sw_fetch swenv rq = Inl err \<and> cache_of caches API_CACHE_NAME (url rq) = None"
    then show "handleApiRequest swenv caches rq
        = (no_cache_response, caches_open API_CACHE_NAME caches)"
      using handleApiRequest_fetch_fails_none by blast
  next
    show "\<not> sw_ok no_cache_response" using r by simp
  next
    show "sw_status no_cache_response = 503" using r by simp
  qed
qed

theorem failure_without_cache_propagates_witness:
  "getWithCache (cache_browser (Inl failed_to_fetch) True 900000) an_api Map.empty ''/models''
       300000
     = (Inl failed_to_fetch,
        snd (get (browser (Inl failed_to_fetch) True 900000) an_api ''/models''), Map.empty)
   \<and> fst (getWithCache (cache_browser (Inl failed_to_fetch) False 900000) an_api Map.empty
            ''/models'' 300000)
     = Inl (new_Error ''Network connection lost. Please check your internet connection.'')
   \<and> handleApiRequest (worker (Inl failed_to_fetch) 900000) cold_caches api_get
     = (no_cache_response, cold_caches)"
  using failure_without_cache_propagates [where localStorage = Map.empty and endp = "''/models''"
      and env = "cache_browser (Inl failed_to_fetch) True 900000" and s = an_api
      and ttl = 300000 and rq = api_get and swenv = "worker (Inl failed_to_fetch) 900000"
      and caches = cold_caches]
    failure_without_cache_propagates [where localStorage = Map.empty and endp = "''/models''"
      and env = "cache_browser (Inl failed_to_fetch) False 900000" and s = an_api
      and ttl = 300000 and rq = api_get and swenv = "worker (Inl failed_to_fetch) 900000"
      and caches = cold_caches]
  by (simp add: eval_cache eval_request eval_worker)

text \<open>
  C3 as stated fails for \<^verbatim>\<open>getWithCache\<close> when \<^verbatim>\<open>navigator.onLine\<close> is false: with no
  cached entry, the fetch rejects with its own error, and the error the caller gets is
  the connection-lost error of \<^verbatim>\<open>request\<close>, another error with another message.
\<close>

theorem getWithCache_offline_error_replaced:
  "fetch (request_env (cache_browser (Inl failed_to_fetch) False 900000))
      ''/api/v2/models'' default_config = Inl failed_to_fetch
   \<and> fst (getWithCache (cache_browser (Inl failed_to_fetch) False 900000) an_api Map.empty
            ''/models'' 300000)
     = Inl (new_Error ''Network connection lost. Please check your internet connection.'')
   \<and> new_Error ''Network connection lost. Please check your internet connection.''
       \<noteq> failed_to_fetch"
  by (simp add: eval_cache eval_request)

section \<open>The fetch listener: properties\<close>

text \<open>
  C9. The listener does not respond to a request that is not a GET and leaves the caches
  as they are. The API handler changes an entry of the API cache only for a GET request
  whose network response is ok, and then the entry is the stamped copy of that response,
  one that \<^verbatim>\<open>cache.put\<close> accepts, under the URL of the request; the same holds for every
  fetch event, where in addition the path is an API path. So the response to a write is
  neither served from nor stored in the API cache.
\<close>

theorem api_cache_only_ok_get:
  "(req_method rq \<noteq> ''GET'' \<longrightarrow> on_fetch env caches rq = (NotHandled, caches))
   \<and> (\<forall>k. cache_of (snd (handleApiRequest env caches rq)) API_CACHE_NAME k
             \<noteq> cache_of caches API_CACHE_NAME k \<longrightarrow>
          req_method rq = ''GET'' \<and> k = url rq
          \<and> (\<exists>nr. sw_fetch env rq = Inr nr \<and> sw_ok nr
                \<and> put_accepts (protocol rq)
                     (nr\<lparr>sw_type := ''default'',
                         sw_cached_time := append_time (sw_cached_time nr) (sw_now_store env)\<rparr>)
                \<and> cache_of (snd (handleApiRequest env caches rq)) API_CACHE_NAME k =
                    Some (nr\<lparr>sw_type := ''default'',
                            sw_cached_time :=
                              append_time (sw_cached_time nr) (sw_now_store env)\<rparr>)))
   \<and> (\<forall>k. cache_of (snd (on_fetch env caches rq)) API_CACHE_NAME k
             \<noteq> cache_of caches API_CACHE_NAME k \<longrightarrow>
          req_method rq = ''GET'' \<and> prefix ''/api/'' (pathname rq) \<and> k = url rq
          \<and> (\<exists>nr. sw_fetch env rq = Inr nr \<and> sw_ok nr))"
proof -
  have a: "req_method rq \<noteq> ''GET'' \<longrightarrow> on_fetch env caches rq = (NotHandled, caches)"
    by (simp add: on_fetch_def)
  have c: "\<forall>k. cache_of (snd (on_fetch env caches rq)) API_CACHE_NAME k
             \<noteq> cache_of caches API_CACHE_NAME k \<longrightarrow>
          req_method rq = ''GET'' \<and> prefix ''/api/'' (pathname rq) \<and> k = url rq
          \<and> (\<exists>nr. sw_fetch env rq = Inr nr \<and> sw_ok nr)"
  proof (intro allI impI)
    fix k
    assume d: "cache_of (snd (on_fetch env caches rq)) API_CACHE_NAME k
                 \<noteq> cache_of caches API_CACHE_NAME k"
    then have api: "req_method rq = ''GET'' \<and> prefix ''/api/'' (pathname rq)"
      by (auto simp add: on_fetch_def split_beta split: if_splits)
    with d have "cache_of (snd (handleApiRequest env caches rq)) API_CACHE_NAME k
                 \<noteq> cache_of caches API_CACHE_NAME k"
      by (auto simp add: on_fetch_def split_beta split: if_splits)
    from handleApiRequest_writes [OF this] api
    show "req_method rq = ''GET'' \<and> prefix ''/api/'' (pathname rq) \<and> k = url rq
          \<and> (\<exists>nr. sw_fetch env rq = Inr nr \<and> sw_ok nr)"
      by blast
  qed
  from a c handleApiRequest_writes [of env caches rq] show ?thesis by blast
qed

theorem api_cache_only_ok_get_witness:
  "on_fetch (worker (Inr a_page) 2000) cold_caches api_post = (NotHandled, cold_caches)
   \<and> cache_of (snd (on_fetch (worker (Inr a_page) 2000) cold_caches api_get)) API_CACHE_NAME
        (url api_get) = Some (a_page\<lparr>sw_type := ''default'', sw_cached_time := Stamp 2000\<rparr>)
   \<and> cache_of (snd (handleApiRequest (worker (Inr a_page) 2000) cold_caches api_post))
        API_CACHE_NAME (url api_post) = None"
  using api_cache_only_ok_get [of api_post "worker (Inr a_page) 2000" cold_caches]
    api_cache_only_ok_get [of api_get "worker (Inr a_page) 2000" cold_caches]
  by (simp add: eval_worker)




end
